theory Spec2Isabelle
  imports
    Complex_Main
    "HOL-Library.Char_ord"
    "HOL-Library.List_Lexorder"
    "HOL-Library.AList"
begin

section \<open>The local analysis service (feature extraction, statistics, forecasting)\<close>

text \<open>
  The development embeds the analysis service of the repository (the module that starts
  with \<^verbatim>\<open>import * as tf from '@tensorflow/tfjs'\<close>): \<^verbatim>\<open>extractFeatures\<close>,
  \<^verbatim>\<open>calculateStatistics\<close>, \<^verbatim>\<open>predictWithSmoothing\<close>, \<^verbatim>\<open>buildAndTrainModel\<close>,
  \<^verbatim>\<open>generateMLPredictions\<close>, \<^verbatim>\<open>getCategoryTrend\<close>, \<^verbatim>\<open>getRecommendation\<close> and
  \<^verbatim>\<open>analyzeFinances\<close>.

  Conventions of the embedding.
  \<^item> Numbers. The service computes with the numbers of the machine, IEEE-754 doubles with
    their rounding, their infinities and \<^verbatim>\<open>NaN\<close>. The embedding does not fix them: every
    function takes the arithmetic as its first argument, a record of the operations that
    the source applies to numbers, and every operator of the source is one application
    of one field, in the order in which the source evaluates it. What is proved for every
    arithmetic holds for the doubles. The examples are computed in two instances: the exact
    arithmetic of the reals, \<open>realArith\<close>, and the arithmetic of the doubles in their normal
    range, \<open>roundedArith\<close>.
  \<^item> An array length, an index and a loop counter are natural numbers (a double holds
    them exactly far beyond any array length); the field \<open>jsNat\<close> makes one a number.
  \<^item> A plain object used as a dictionary is the association list of its own properties in
    insertion order (a write is \<^term>\<open>AList.update\<close>, which keeps the position of a key
    that exists and appends a new one). A read \<^verbatim>\<open>obj[k]\<close> that finds no own property
    finds the property that \<^verbatim>\<open>{}\<close> inherits from \<^verbatim>\<open>Object.prototype\<close> when \<open>k\<close> is one
    of its names (\<open>inheritedNames\<close>, \<open>getProp\<close>). A month key ends in a digit, so it is
    none of these names; a category is free text and may be one.
  \<^item> A \<^verbatim>\<open>Set\<close> is a list without duplicates in insertion order.
  \<^item> A thrown exception is a value \<^term>\<open>Inl e\<close> of the result; reading a property of
    \<^verbatim>\<open>undefined\<close> is the exception \<^verbatim>\<open>TypeError\<close>.
  \<^item> \<^verbatim>\<open>console.log\<close> and \<^verbatim>\<open>console.warn\<close> have no effect on any result and are
    left out.
\<close>

subsection \<open>Numbers\<close>

text \<open>
  The operations of the source on numbers: a numeric literal (\<open>jsLit\<close>, the number that
  the decimal denotes on the machine), a count as a number (\<open>jsNat\<close>), \<^verbatim>\<open>+\<close>, binary
  \<^verbatim>\<open>-\<close>, \<^verbatim>\<open>*\<close>, \<^verbatim>\<open>/\<close>, unary \<^verbatim>\<open>-\<close>, \<^verbatim>\<open><\<close>, \<^verbatim>\<open>===\<close>, the truth value of a number in
  a condition or under \<^verbatim>\<open>||\<close>, \<^verbatim>\<open>Math.max\<close>, \<^verbatim>\<open>Math.min\<close>, and \<^verbatim>\<open>NaN\<close>, the number that
  \<^verbatim>\<open>undefined\<close> becomes in an addition.
\<close>

record 'n arith =
  jsLit :: "real \<Rightarrow> 'n"
  jsNat :: "nat \<Rightarrow> 'n"
  jsAdd :: "'n \<Rightarrow> 'n \<Rightarrow> 'n"
  jsSub :: "'n \<Rightarrow> 'n \<Rightarrow> 'n"
  jsMul :: "'n \<Rightarrow> 'n \<Rightarrow> 'n"
  jsDiv :: "'n \<Rightarrow> 'n \<Rightarrow> 'n"
  jsNeg :: "'n \<Rightarrow> 'n"
  jsLt :: "'n \<Rightarrow> 'n \<Rightarrow> bool"
  jsEq :: "'n \<Rightarrow> 'n \<Rightarrow> bool"
  jsTruthy :: "'n \<Rightarrow> bool"
  jsMax :: "'n \<Rightarrow> 'n \<Rightarrow> 'n"
  jsMin :: "'n \<Rightarrow> 'n \<Rightarrow> 'n"
  jsNaN :: 'n

text \<open>The literal \<^verbatim>\<open>0\<close>, and \<^verbatim>\<open>a > b\<close>, which is \<^verbatim>\<open>b < a\<close>.\<close>

abbreviation jsZero :: "'n arith \<Rightarrow> 'n" where
  "jsZero ar \<equiv> jsLit ar 0"

abbreviation jsGt :: "'n arith \<Rightarrow> 'n \<Rightarrow> 'n \<Rightarrow> bool" where
  "jsGt ar a b \<equiv> jsLt ar b a"

text \<open>
  The exact arithmetic of the reals. It has no \<^verbatim>\<open>NaN\<close>; \<open>jsNaN\<close> is read only where a
  category bears the name of an inherited property.
\<close>

definition realArith :: "real arith" where
  "realArith =
     \<lparr>jsLit = (\<lambda>x. x), jsNat = real, jsAdd = (+), jsSub = (-), jsMul = (*), jsDiv = (/),
      jsNeg = uminus, jsLt = (<), jsEq = (=), jsTruthy = (\<lambda>x. x \<noteq> 0), jsMax = max, jsMin = min,
      jsNaN = 0\<rparr>"

text \<open>
  The arithmetic of the doubles in their normal range. The exact result of every
  operation, and every literal, is rounded to 53 significant bits: to the nearest number
  with such a significand, and on a tie to the one whose significand is even. \<open>normalise\<close>
  doubles or halves a positive number until it lies between \<open>2\<^sup>5\<^sup>2\<close> and \<open>2\<^sup>5\<^sup>3\<close> and
  keeps the power of two by which to multiply back; the integer nearest to the scaled number
  is the significand. This is the arithmetic of the machine on every computation in which
  no result overflows, underflows, is infinite or is \<^verbatim>\<open>NaN\<close>: a number that 2200 doublings
  or halvings do not bring into the range is beyond the doubles, and is left as it is.
\<close>

definition roundEven :: "real \<Rightarrow> int" where
  "roundEven x =
     (let f = \<lfloor>x\<rfloor>; r = x - of_int f
      in if r < 1 / 2 then f else if 1 / 2 < r then f + 1 else if even f then f else f + 1)"

fun normalise :: "nat \<Rightarrow> real \<Rightarrow> real \<Rightarrow> real \<times> real" where
  "normalise 0 x k = (x, k)"
| "normalise (Suc n) x k =
     (if x < 2 ^ 52 then normalise n (2 * x) (k / 2)
      else if 2 ^ 53 \<le> x then normalise n (x / 2) (2 * k)
      else (x, k))"

definition round53 :: "real \<Rightarrow> real" where
  "round53 x =
     (if x = 0 then 0
      else (case normalise 2200 \<bar>x\<bar> 1 of
              (m, k) \<Rightarrow> if 2 ^ 52 \<le> m \<and> m < 2 ^ 53 then sgn x * of_int (roundEven m) * k else x))"

definition roundedArith :: "real arith" where
  "roundedArith =
     \<lparr>jsLit = round53, jsNat = (\<lambda>n. round53 (real n)),
      jsAdd = (\<lambda>a b. round53 (a + b)), jsSub = (\<lambda>a b. round53 (a - b)),
      jsMul = (\<lambda>a b. round53 (a * b)), jsDiv = (\<lambda>a b. round53 (a / b)),
      jsNeg = uminus, jsLt = (<), jsEq = (=), jsTruthy = (\<lambda>x. x \<noteq> 0), jsMax = max, jsMin = min,
      jsNaN = 0\<rparr>"

text \<open>\<^verbatim>\<open>x || y\<close> on numbers, and on counts (\<^verbatim>\<open>months.length || 1\<close>, \<^verbatim>\<open>count || 1\<close>).\<close>

definition orElse :: "'n arith \<Rightarrow> 'n \<Rightarrow> 'n \<Rightarrow> 'n" where
  "orElse ar x y = (if jsTruthy ar x then x else y)"

definition countOr :: "nat \<Rightarrow> nat \<Rightarrow> nat" where
  "countOr n m = (if n = 0 then m else n)"

text \<open>\<^verbatim>\<open>xs.reduce((a, b) => a + b, 0)\<close>.\<close>

definition reduceSum :: "'n arith \<Rightarrow> 'n list \<Rightarrow> 'n" where
  "reduceSum ar xs = foldl (\<lambda>a b. jsAdd ar a b) (jsZero ar) xs"

subsection \<open>Data\<close>

datatype error = Error string | TypeError | BackendError string

text \<open>\<^verbatim>\<open>{ cost, revenue }\<close>: a category sub-bucket, and one regression prediction.\<close>

record 'n totals =
  cost :: 'n
  revenue :: 'n

text \<open>\<^verbatim>\<open>{ cost, revenue, categories }\<close>: one month bucket of \<^verbatim>\<open>monthlyData\<close>.\<close>

record 'n bucket = "'n totals" +
  categories :: "(string \<times> 'n totals) list"

text \<open>\<^verbatim>\<open>{ cost, revenue, count }\<close>: one entry of \<^verbatim>\<open>categoryTotals\<close>.\<close>

record 'n categoryTotal = "'n totals" +
  count :: nat

type_synonym 'n monthlyData = "(string \<times> 'n bucket) list"

text \<open>
  \<^verbatim>\<open>new Date(tx.date)\<close>: either an invalid date (\<^verbatim>\<open>isNaN(date.getTime())\<close>) or a date
  with its local calendar year and its month, counted from 0.
\<close>

datatype jsdate = InvalidDate | LocalDate (getFullYear: int) (getMonth: nat)

text \<open>
  A transaction: every element of the list is an object. \<^verbatim>\<open>date\<close> is the field as
  \<^verbatim>\<open>new Date\<close> reads it, \<^verbatim>\<open>category\<close> is \<^term>\<open>None\<close> when the field is missing, and
  \<^verbatim>\<open>amount\<close> is the number \<^verbatim>\<open>Number(tx.amount)\<close>, which is \<^verbatim>\<open>NaN\<close> when the field is
  not numeric. A \<^verbatim>\<open>type\<close> that is missing behaves as any string other than \<^verbatim>\<open>cost\<close>.
\<close>

record 'n transaction =
  date :: jsdate
  type :: string
  category :: "string option"
  amount :: 'n

subsection \<open>Dictionaries\<close>

text \<open>
  The names of the properties that an object created by \<^verbatim>\<open>{}\<close> inherits from
  \<^verbatim>\<open>Object.prototype\<close>. Each of them is an object (a function, or \<^verbatim>\<open>Object.prototype\<close>
  itself under \<^verbatim>\<open>__proto__\<close>), so it is truthy.
\<close>

definition inheritedNames :: "string list" where
  "inheritedNames =
     [''constructor'', ''hasOwnProperty'', ''isPrototypeOf'', ''propertyIsEnumerable'',
      ''toLocaleString'', ''toString'', ''valueOf'', ''__proto__'',
      ''__defineGetter__'', ''__defineSetter__'', ''__lookupGetter__'', ''__lookupSetter__'']"

datatype 'v property = Own 'v | Inherited | Absent

definition getProp :: "(string \<times> 'v) list \<Rightarrow> string \<Rightarrow> 'v property" where
  "getProp obj k =
     (case map_of obj k of
        Some v \<Rightarrow> Own v
      | None \<Rightarrow> if k \<in> set inheritedNames then Inherited else Absent)"

text \<open>
  An assignment \<^verbatim>\<open>obj['__proto__'] = v\<close> makes the object \<open>v\<close> the prototype of \<open>obj\<close>
  and creates no own property; a later read \<^verbatim>\<open>obj['__proto__']\<close> returns \<open>v\<close>. The
  association list keeps the pair under its key, and \<^verbatim>\<open>Object.entries\<close> and
  \<^verbatim>\<open>Object.keys\<close> leave it out.
\<close>

definition ownEntries :: "(string \<times> 'v) list \<Rightarrow> (string \<times> 'v) list" where
  "ownEntries obj = filter (\<lambda>e. fst e \<noteq> ''__proto__'') obj"

subsection \<open>Strings of numbers\<close>

fun digits :: "nat \<Rightarrow> string" where
  "digits n =
     (if n < 10 then [''0123456789'' ! n]
      else digits (n div 10) @ [''0123456789'' ! (n mod 10)])"

declare digits.simps [simp del]

definition String :: "int \<Rightarrow> string" where
  "String i = (if i < 0 then CHR ''-'' # digits (nat (- i)) else digits (nat i))"

definition padStart :: "string \<Rightarrow> nat \<Rightarrow> char \<Rightarrow> string" where
  "padStart s n c = replicate (n - length s) c @ s"

subsection \<open>extractFeatures\<close>

definition monthKeyOf :: "jsdate \<Rightarrow> string" where
  "monthKeyOf d =
     String (getFullYear d) @ ''-'' @ padStart (String (int (getMonth d + 1))) 2 (CHR ''0'')"

text \<open>\<^verbatim>\<open>tx.category || 'Other'\<close>: the empty string is falsy.\<close>

definition categoryOf :: "'n transaction \<Rightarrow> string" where
  "categoryOf tx =
     (case category tx of None \<Rightarrow> ''Other'' | Some c \<Rightarrow> if c = [] then ''Other'' else c)"

text \<open>\<^verbatim>\<open>Number(tx.amount) || 0\<close>.\<close>

definition amountOf :: "'n arith \<Rightarrow> 'n transaction \<Rightarrow> 'n" where
  "amountOf ar tx = orElse ar (amount tx) (jsZero ar)"

definition Set_add :: "'a \<Rightarrow> 'a list \<Rightarrow> 'a list" where
  "Set_add x xs = (if x \<in> set xs then xs else xs @ [x])"

definition emptyBucket :: "'n arith \<Rightarrow> 'n bucket" where
  "emptyBucket ar = \<lparr>cost = jsZero ar, revenue = jsZero ar, categories = []\<rparr>"

definition emptyTotals :: "'n arith \<Rightarrow> 'n totals" where
  "emptyTotals ar = \<lparr>cost = jsZero ar, revenue = jsZero ar\<rparr>"

text \<open>
  The body of the \<^verbatim>\<open>forEach\<close> callback on the pair of the two structures being built.
  \<^verbatim>\<open>b0\<close> is the month bucket after the first \<^verbatim>\<open>if\<close> (created when absent) and \<^verbatim>\<open>cs0\<close> its
  categories after the second \<^verbatim>\<open>if\<close>, which creates a sub-bucket only when
  \<^verbatim>\<open>categories[category]\<close> is falsy: not when the category has a sub-bucket, and not when
  its name is inherited. The last \<^verbatim>\<open>if\<close> adds the amount to the month bucket and to
  \<^verbatim>\<open>categories[category]\<close>; under an inherited name that is the inherited object, and the
  categories of the month stay as they are.
\<close>

definition extractStep ::
  "'n arith \<Rightarrow> 'n monthlyData \<times> string list \<Rightarrow> 'n transaction \<Rightarrow> 'n monthlyData \<times> string list" where
  "extractStep ar st tx =
     (case date tx of
        InvalidDate \<Rightarrow> st
      | LocalDate y m \<Rightarrow>
          (let monthKey = monthKeyOf (date tx);
               cat = categoryOf tx;
               amt = amountOf ar tx;
               cats = Set_add cat (snd st);
               b0 = (case map_of (fst st) monthKey of None \<Rightarrow> emptyBucket ar | Some b \<Rightarrow> b);
               cs0 = (case getProp (categories b0) cat of
                        Absent \<Rightarrow> AList.update cat (emptyTotals ar) (categories b0)
                      | Own s \<Rightarrow> categories b0
                      | Inherited \<Rightarrow> categories b0);
               b1 = (if type tx = ''cost''
                     then b0\<lparr>cost := jsAdd ar (cost b0) amt,
                            categories :=
                              (case map_of cs0 cat of
                                 None \<Rightarrow> cs0
                               | Some s \<Rightarrow> AList.update cat (s\<lparr>cost := jsAdd ar (cost s) amt\<rparr>) cs0)\<rparr>
                     else b0\<lparr>revenue := jsAdd ar (revenue b0) amt,
                            categories :=
                              (case map_of cs0 cat of
                                 None \<Rightarrow> cs0
                               | Some s \<Rightarrow> AList.update cat (s\<lparr>revenue := jsAdd ar (revenue s) amt\<rparr>) cs0)\<rparr>)
           in (AList.update monthKey b1 (fst st), cats)))"

definition extractFeatures ::
  "'n arith \<Rightarrow> 'n transaction list \<Rightarrow> 'n monthlyData \<times> string list" where
  "extractFeatures ar transactions = foldl (extractStep ar) ([], []) transactions"

subsection \<open>Arrays and exceptions\<close>

text \<open>
  \<^verbatim>\<open>xs.slice(start, fin)\<close>: a negative index counts from the end, and both indices are
  clamped to the array. \<^verbatim>\<open>xs.slice(start)\<close> is \<open>sliceFrom\<close>.
\<close>

definition slice :: "'a list \<Rightarrow> int \<Rightarrow> int \<Rightarrow> 'a list" where
  "slice xs start fin =
     (let n = int (length xs);
          k = (if start < 0 then max (n + start) 0 else min start n);
          e = (if fin < 0 then max (n + fin) 0 else min fin n)
      in take (nat (e - k)) (drop (nat k) xs))"

definition sliceFrom :: "'a list \<Rightarrow> int \<Rightarrow> 'a list" where
  "sliceFrom xs start = slice xs start (int (length xs))"

text \<open>\<^verbatim>\<open>xs.map(f)\<close> with a callback that may throw: the first exception ends the map.\<close>

fun mapThrowing :: "('a \<Rightarrow> error + 'b) \<Rightarrow> 'a list \<Rightarrow> error + 'b list" where
  "mapThrowing f [] = Inr []"
| "mapThrowing f (x # xs) =
     (case f x of
        Inl e \<Rightarrow> Inl e
      | Inr y \<Rightarrow> (case mapThrowing f xs of Inl e \<Rightarrow> Inl e | Inr ys \<Rightarrow> Inr (y # ys)))"

text \<open>
  \<^verbatim>\<open>monthlyData[m]\<close> when a property of it is read next: \<^verbatim>\<open>TypeError\<close> when the month has
  no bucket (every caller passes the keys of \<^verbatim>\<open>monthlyData\<close>). \<open>monthAtIndex\<close> is
  \<^verbatim>\<open>monthlyData[months[j]]\<close>; an index outside of \<^verbatim>\<open>months\<close> reads \<^verbatim>\<open>undefined\<close>, which is
  no month key.
\<close>

definition monthAt :: "'n monthlyData \<Rightarrow> string \<Rightarrow> error + 'n bucket" where
  "monthAt md m = (case map_of md m of None \<Rightarrow> Inl TypeError | Some b \<Rightarrow> Inr b)"

definition monthAtIndex :: "'n monthlyData \<Rightarrow> string list \<Rightarrow> nat \<Rightarrow> error + 'n bucket" where
  "monthAtIndex md ms j = (if j < length ms then monthAt md (ms ! j) else Inl TypeError)"

text \<open>
  \<^verbatim>\<open>b.categories[cat]?.cost || 0\<close> and \<^verbatim>\<open>b.categories[cat]?.revenue || 0\<close>. Under an
  inherited name the read is that of the property \<^verbatim>\<open>cost\<close> of the inherited object. The
  application writes to it only in \<^verbatim>\<open>extractFeatures\<close>, and what it writes is \<^verbatim>\<open>NaN\<close>
  (\<^verbatim>\<open>undefined + amount\<close>, then \<^verbatim>\<open>NaN + amount\<close>): the property is \<^verbatim>\<open>undefined\<close> or
  \<^verbatim>\<open>NaN\<close>, both are falsy, and the result is the \<^verbatim>\<open>0\<close>.
\<close>

definition categoryCost :: "'n arith \<Rightarrow> 'n bucket \<Rightarrow> string \<Rightarrow> 'n" where
  "categoryCost ar b cat =
     (case getProp (categories b) cat of
        Absent \<Rightarrow> jsZero ar
      | Own s \<Rightarrow> orElse ar (cost s) (jsZero ar)
      | Inherited \<Rightarrow> jsZero ar)"

definition categoryRevenue :: "'n arith \<Rightarrow> 'n bucket \<Rightarrow> string \<Rightarrow> 'n" where
  "categoryRevenue ar b cat =
     (case getProp (categories b) cat of
        Absent \<Rightarrow> jsZero ar
      | Own s \<Rightarrow> orElse ar (revenue s) (jsZero ar)
      | Inherited \<Rightarrow> jsZero ar)"

subsection \<open>calculateStatistics\<close>

record 'n statistics =
  avgMonthlyCost :: 'n
  avgMonthlyRevenue :: 'n
  totalCost :: 'n
  totalRevenue :: 'n
  trend :: string
  topCategories :: "string list"
  categoryTotals :: "(string \<times> 'n categoryTotal) list"
  months :: "string list"
  numMonths :: nat

text \<open>The first \<^verbatim>\<open>categories.forEach\<close>: every category starts at zero.\<close>

definition initCategoryTotals :: "'n arith \<Rightarrow> string list \<Rightarrow> (string \<times> 'n categoryTotal) list" where
  "initCategoryTotals ar cats =
     foldl (\<lambda>ct cat. AList.update cat \<lparr>cost = jsZero ar, revenue = jsZero ar, count = 0\<rparr> ct) [] cats"

text \<open>
  The inner \<^verbatim>\<open>categories.forEach\<close> of one month, on \<^verbatim>\<open>categoryTotals\<close>. The test
  \<^verbatim>\<open>if (monthlyData[month].categories[cat])\<close> holds for a sub-bucket and for an inherited
  name; under an inherited name the two numbers added are the properties \<^verbatim>\<open>cost\<close> and
  \<^verbatim>\<open>revenue\<close> of the inherited object, \<^verbatim>\<open>undefined\<close> or \<^verbatim>\<open>NaN\<close>, which an addition reads as
  \<^verbatim>\<open>NaN\<close>. \<^verbatim>\<open>categoryTotals[cat]\<close> was assigned by the first \<^verbatim>\<open>forEach\<close>.
\<close>

fun addMonthToCategories ::
  "'n arith \<Rightarrow> 'n bucket \<Rightarrow> string list \<Rightarrow> (string \<times> 'n categoryTotal) list
     \<Rightarrow> error + (string \<times> 'n categoryTotal) list" where
  "addMonthToCategories ar b [] ct = Inr ct"
| "addMonthToCategories ar b (cat # cs) ct =
     (case getProp (categories b) cat of
        Absent \<Rightarrow> addMonthToCategories ar b cs ct
      | Own s \<Rightarrow>
          (case map_of ct cat of
             None \<Rightarrow> Inl TypeError
           | Some t \<Rightarrow>
               addMonthToCategories ar b cs
                 (AList.update cat
                    (t\<lparr>cost := jsAdd ar (cost t) (cost s),
                       revenue := jsAdd ar (revenue t) (revenue s),
                       count := count t + 1\<rparr>) ct))
      | Inherited \<Rightarrow>
          (case map_of ct cat of
             None \<Rightarrow> Inl TypeError
           | Some t \<Rightarrow>
               addMonthToCategories ar b cs
                 (AList.update cat
                    (t\<lparr>cost := jsAdd ar (cost t) (jsNaN ar),
                       revenue := jsAdd ar (revenue t) (jsNaN ar),
                       count := count t + 1\<rparr>) ct)))"

text \<open>\<^verbatim>\<open>months.forEach\<close>, on \<^verbatim>\<open>(totalCost, totalRevenue, categoryTotals)\<close>.\<close>

fun monthsLoop ::
  "'n arith \<Rightarrow> 'n monthlyData \<Rightarrow> string list \<Rightarrow> string list
     \<Rightarrow> 'n \<times> 'n \<times> (string \<times> 'n categoryTotal) list
     \<Rightarrow> error + ('n \<times> 'n \<times> (string \<times> 'n categoryTotal) list)" where
  "monthsLoop ar md cats [] acc = Inr acc"
| "monthsLoop ar md cats (month # ms) (tc, tr, ct) =
     (case monthAt md month of
        Inl e \<Rightarrow> Inl e
      | Inr b \<Rightarrow>
          (case addMonthToCategories ar b cats ct of
             Inl e \<Rightarrow> Inl e
           | Inr ct' \<Rightarrow> monthsLoop ar md cats ms (jsAdd ar tc (cost b), jsAdd ar tr (revenue b), ct')))"

text \<open>
  The block under \<^verbatim>\<open>if (recentCosts.length >= 2)\<close>, with the \<^verbatim>\<open>'stable'\<close> that \<^verbatim>\<open>trend\<close>
  keeps otherwise. \<^verbatim>\<open>Math.ceil(recentCosts.length / 2)\<close> is an index.
\<close>

definition costTrend :: "'n arith \<Rightarrow> 'n list \<Rightarrow> string" where
  "costTrend ar recentCosts =
     (if length recentCosts \<ge> 2 then
        (let firstHalf = slice recentCosts 0 \<lceil>real (length recentCosts) / 2\<rceil>;
             secondHalf = sliceFrom recentCosts \<lceil>real (length recentCosts) / 2\<rceil>;
             firstAvg = jsDiv ar (reduceSum ar firstHalf) (jsNat ar (length firstHalf));
             secondAvg = jsDiv ar (reduceSum ar secondHalf) (jsNat ar (length secondHalf))
         in if jsGt ar secondAvg (jsMul ar firstAvg (jsLit ar 1.1)) then ''increasing''
            else if jsLt ar secondAvg (jsMul ar firstAvg (jsLit ar 0.9)) then ''decreasing''
            else ''stable'')
      else ''stable'')"

text \<open>
  \<^verbatim>\<open>xs.sort((a, b) => before(a, b) ? -1 : ..)\<close> for a comparator that orders the array
  consistently: the stable sort, by insertion. An element goes behind those that the
  comparator puts strictly before it.
\<close>

fun insertSorted :: "('a \<Rightarrow> 'a \<Rightarrow> bool) \<Rightarrow> 'a \<Rightarrow> 'a list \<Rightarrow> 'a list" where
  "insertSorted before x [] = [x]"
| "insertSorted before x (y # ys) =
     (if before y x then y # insertSorted before x ys else x # y # ys)"

definition sortWith :: "('a \<Rightarrow> 'a \<Rightarrow> bool) \<Rightarrow> 'a list \<Rightarrow> 'a list" where
  "sortWith before xs = foldr (insertSorted before) xs []"

text \<open>
  \<^verbatim>\<open>Object.entries(categoryTotals).filter(..).sort((a, b) => b[1].cost - a[1].cost)\<close>
  \<^verbatim>\<open>.slice(0, 3).map(..)\<close>: \<open>a\<close> comes strictly before \<open>b\<close> when the comparator is
  negative.
\<close>

definition topOf :: "'n arith \<Rightarrow> (string \<times> 'n categoryTotal) list \<Rightarrow> string list" where
  "topOf ar ct =
     map fst
       (slice
          (sortWith (\<lambda>a b. jsLt ar (jsSub ar (cost (snd b)) (cost (snd a))) (jsZero ar))
             (filter (\<lambda>e. jsGt ar (cost (snd e)) (jsZero ar)) (ownEntries ct)))
          0 3)"

definition calculateStatistics ::
  "'n arith \<Rightarrow> 'n monthlyData \<Rightarrow> string list \<Rightarrow> error + 'n statistics" where
  "calculateStatistics ar md cats =
     (let ms = sort (map fst md) in
      case monthsLoop ar md cats ms (jsZero ar, jsZero ar, initCategoryTotals ar cats) of
        Inl e \<Rightarrow> Inl e
      | Inr (tc, tr, ct) \<Rightarrow>
          (let n = countOr (length ms) 1 in
           case (if length ms \<ge> 2
                 then (case mapThrowing (\<lambda>m. case monthAt md m of Inl e \<Rightarrow> Inl e | Inr b \<Rightarrow> Inr (cost b))
                              (sliceFrom ms (- 3)) of
                         Inl e \<Rightarrow> Inl e
                       | Inr recentCosts \<Rightarrow> Inr (costTrend ar recentCosts))
                 else Inr ''stable'') of
             Inl e \<Rightarrow> Inl e
           | Inr t \<Rightarrow>
               Inr \<lparr>avgMonthlyCost = jsDiv ar tc (jsNat ar n),
                    avgMonthlyRevenue = jsDiv ar tr (jsNat ar n),
                    totalCost = tc,
                    totalRevenue = tr,
                    trend = t,
                    topCategories = topOf ar ct,
                    categoryTotals = ct,
                    months = ms,
                    numMonths = n\<rparr>))"

subsection \<open>predictWithSmoothing\<close>

text \<open>The smoothing loop, \<^verbatim>\<open>for (let i = 1; i < values.length; i++)\<close>.\<close>

function smoothingLoop :: "'n arith \<Rightarrow> 'n \<Rightarrow> 'n list \<Rightarrow> nat \<Rightarrow> 'n \<Rightarrow> 'n" where
  "smoothingLoop ar alpha vs i forecast =
     (if i < length vs
      then smoothingLoop ar alpha vs (i + 1)
             (jsAdd ar (jsMul ar alpha (vs ! i)) (jsMul ar (jsSub ar (jsLit ar 1) alpha) forecast))
      else forecast)"
  by pat_completeness auto
termination
  by (relation "measure (\<lambda>(ar, alpha, vs, i, forecast). length vs - i)") auto

declare smoothingLoop.simps [simp del]

text \<open>The loop that pushes \<^verbatim>\<open>recentValues[i] - recentValues[i - 1]\<close>, from \<open>i = 1\<close>.\<close>

function changesLoop :: "'n arith \<Rightarrow> 'n list \<Rightarrow> nat \<Rightarrow> 'n list \<Rightarrow> 'n list" where
  "changesLoop ar recentValues i changes =
     (if i < length recentValues
      then changesLoop ar recentValues (i + 1)
             (changes @ [jsSub ar (recentValues ! i) (recentValues ! (i - 1))])
      else changes)"
  by pat_completeness auto
termination
  by (relation "measure (\<lambda>(ar, recentValues, i, changes). length recentValues - i)") auto

declare changesLoop.simps [simp del]

text \<open>The loop that pushes \<^verbatim>\<open>Math.max(0, forecast + trendFactor * (i + 1))\<close>, from \<open>i = 0\<close>.\<close>

function predictionsLoop :: "'n arith \<Rightarrow> 'n \<Rightarrow> 'n \<Rightarrow> nat \<Rightarrow> nat \<Rightarrow> 'n list \<Rightarrow> 'n list" where
  "predictionsLoop ar forecast trendFactor periods i predictions =
     (if i < periods
      then predictionsLoop ar forecast trendFactor periods (i + 1)
             (predictions @
                [jsMax ar (jsZero ar) (jsAdd ar forecast (jsMul ar trendFactor (jsNat ar (i + 1))))])
      else predictions)"
  by pat_completeness auto
termination
  by (relation "measure (\<lambda>(ar, forecast, trendFactor, periods, i, predictions). periods - i)") auto

declare predictionsLoop.simps [simp del]

text \<open>
  \<open>periods\<close> is a count (every caller passes \<open>3\<close>), \<^verbatim>\<open>Array(periods).fill(x)\<close> is
  \<^term>\<open>replicate periods x\<close>. \<^verbatim>\<open>nonZeroValues[0]\<close> and \<^verbatim>\<open>values[0]\<close> are read on
  branches where the arrays are not empty. \<^verbatim>\<open>Math.min(6, values.length)\<close> is a count.
\<close>

definition predictWithSmoothing :: "'n arith \<Rightarrow> 'n list \<Rightarrow> nat \<Rightarrow> 'n \<Rightarrow> 'n \<Rightarrow> 'n list" where
  "predictWithSmoothing ar vs periods alpha fallbackAverage =
     (let nonZeroValues = filter (\<lambda>v. jsGt ar v (jsZero ar)) vs in
      if length nonZeroValues = 0 then
        (if jsGt ar fallbackAverage (jsZero ar) then replicate periods fallbackAverage
         else replicate periods (jsZero ar))
      else if length nonZeroValues = 1 then replicate periods (nonZeroValues ! 0)
      else
        (let forecast0 = smoothingLoop ar alpha vs 1 (vs ! 0);
             avg = jsDiv ar (reduceSum ar nonZeroValues) (jsNat ar (length nonZeroValues));
             forecast = (if jsLt ar forecast0 (jsMul ar avg (jsLit ar 0.1)) \<and> jsGt ar avg (jsZero ar)
                         then avg else forecast0);
             recentValues = sliceFrom vs (- int (min 6 (length vs)));
             trendFactor =
               (if length recentValues \<ge> 2 then
                  (let changes = changesLoop ar recentValues 1 [];
                       trendFactor0 = jsDiv ar (reduceSum ar changes) (jsNat ar (length changes));
                       maxChange = jsMul ar avg (jsLit ar 0.2)
                   in jsMax ar (jsNeg ar maxChange) (jsMin ar maxChange trendFactor0))
                else jsZero ar)
         in predictionsLoop ar forecast trendFactor periods 0 []))"

subsection \<open>The regression forecaster\<close>

text \<open>
  The tensor library is a parameter. \<open>fit\<close> stands for building the sequential model of
  the given input size, compiling it, making the two tensors, training for 100 epochs
  and disposing of the tensors: it returns the trained model or throws. \<open>predict\<close>
  stands for one forward pass on one window (tensor creation, \<^verbatim>\<open>model.predict\<close>,
  \<^verbatim>\<open>prediction.data()\<close>, disposal): it returns the two output values or throws.
\<close>

record ('m, 'n) tf =
  fit :: "nat \<Rightarrow> 'n list list \<Rightarrow> 'n list list \<Rightarrow> error + 'm"
  predict :: "'m \<Rightarrow> 'n list \<Rightarrow> error + 'n \<times> 'n"

text \<open>The inner loop \<^verbatim>\<open>for (let j = ..; j < i; j++)\<close> that fills one window.\<close>

function windowLoop ::
  "'n arith \<Rightarrow> 'n monthlyData \<Rightarrow> string list \<Rightarrow> nat \<Rightarrow> nat \<Rightarrow> 'n list \<Rightarrow> error + 'n list" where
  "windowLoop ar md ms j i inputWindow =
     (if j < i then
        (case monthAtIndex md ms j of
           Inl e \<Rightarrow> Inl e
         | Inr b \<Rightarrow>
             windowLoop ar md ms (j + 1) i
               (inputWindow @ [jsDiv ar (cost b) (jsLit ar 1000), jsDiv ar (revenue b) (jsLit ar 1000)]))
      else Inr inputWindow)"
  by pat_completeness auto
termination
  by (relation "measure (\<lambda>(ar, md, ms, j, i, inputWindow). i - j)") auto

declare windowLoop.simps [simp del]

text \<open>The outer loop \<^verbatim>\<open>for (let i = windowSize; i < months.length; i++)\<close>, on \<^verbatim>\<open>(xs, ys)\<close>.\<close>

function samplesLoop ::
  "'n arith \<Rightarrow> 'n monthlyData \<Rightarrow> string list \<Rightarrow> nat \<Rightarrow> nat \<Rightarrow> 'n list list \<Rightarrow> 'n list list
     \<Rightarrow> error + ('n list list \<times> 'n list list)" where
  "samplesLoop ar md ms windowSize i xs ys =
     (if i < length ms then
        (case windowLoop ar md ms (i - windowSize) i [] of
           Inl e \<Rightarrow> Inl e
         | Inr inputWindow \<Rightarrow>
             (case monthAtIndex md ms i of
                Inl e \<Rightarrow> Inl e
              | Inr b \<Rightarrow>
                  samplesLoop ar md ms windowSize (i + 1)
                    (xs @ [inputWindow])
                    (ys @ [[jsDiv ar (cost b) (jsLit ar 1000), jsDiv ar (revenue b) (jsLit ar 1000)]])))
      else Inr (xs, ys))"
  by pat_completeness auto
termination
  by (relation "measure (\<lambda>(ar, md, ms, windowSize, i, xs, ys). length ms - i)") auto

declare samplesLoop.simps [simp del]

text \<open>The result is \<^term>\<open>Inr None\<close> for \<^verbatim>\<open>null\<close>, \<^term>\<open>Inr (Some model)\<close> for a trained model.\<close>

definition buildAndTrainModel ::
  "'n arith \<Rightarrow> ('m, 'n) tf \<Rightarrow> 'n monthlyData \<Rightarrow> string list \<Rightarrow> error + 'm option" where
  "buildAndTrainModel ar backend md cats =
     (let ms = sort (map fst md) in
      if length ms < 3 then Inr None
      else
        (let windowSize = min 3 (length ms - 1) in
         case samplesLoop ar md ms windowSize windowSize [] [] of
           Inl e \<Rightarrow> Inl e
         | Inr (xs, ys) \<Rightarrow>
             if length xs < 2 then Inr None
             else (case fit backend (windowSize * 2) xs ys of
                     Inl e \<Rightarrow> Inl e
                   | Inr model \<Rightarrow> Inr (Some model))))"

text \<open>The loop \<^verbatim>\<open>for (let i = 0; i < 3; i++)\<close> of the inference, on \<^verbatim>\<open>(lastWindow, predictions)\<close>.\<close>

function forwardLoop ::
  "'n arith \<Rightarrow> ('m, 'n) tf \<Rightarrow> 'm \<Rightarrow> nat \<Rightarrow> 'n list \<Rightarrow> 'n totals list \<Rightarrow> error + 'n totals list" where
  "forwardLoop ar backend model i lastWindow predictions =
     (if i < 3 then
        (case predict backend model lastWindow of
           Inl e \<Rightarrow> Inl e
         | Inr (v0, v1) \<Rightarrow>
             (let predictedCost = jsMax ar (jsZero ar) (jsMul ar v0 (jsLit ar 1000));
                  predictedRevenue = jsMax ar (jsZero ar) (jsMul ar v1 (jsLit ar 1000))
              in forwardLoop ar backend model (i + 1)
                   (sliceFrom lastWindow 2 @
                      [jsDiv ar predictedCost (jsLit ar 1000), jsDiv ar predictedRevenue (jsLit ar 1000)])
                   (predictions @ [\<lparr>cost = predictedCost, revenue = predictedRevenue\<rparr>])))
      else Inr predictions)"
  by pat_completeness auto
termination
  by (relation "measure (\<lambda>(ar, backend, model, i, lastWindow, predictions). 3 - i)") auto

declare forwardLoop.simps [simp del]

definition generateMLPredictions ::
  "'n arith \<Rightarrow> ('m, 'n) tf \<Rightarrow> 'm option \<Rightarrow> 'n monthlyData \<Rightarrow> string list \<Rightarrow> nat
     \<Rightarrow> error + 'n totals list option" where
  "generateMLPredictions ar backend model md ms windowSize =
     (case model of
        None \<Rightarrow> Inr None
      | Some m \<Rightarrow>
          if length ms < windowSize then Inr None
          else
            (case windowLoop ar md ms (length ms - windowSize) (length ms) [] of
               Inl e \<Rightarrow> Inl e
             | Inr lastWindow \<Rightarrow>
                 (case forwardLoop ar backend m 0 lastWindow [] of
                    Inl e \<Rightarrow> Inl e
                  | Inr predictions \<Rightarrow> Inr (Some predictions))))"

subsection \<open>getCategoryTrend and getRecommendation\<close>

definition getCategoryTrend ::
  "'n arith \<Rightarrow> 'n monthlyData \<Rightarrow> string list \<Rightarrow> string \<Rightarrow> error + string" where
  "getCategoryTrend ar md ms cat =
     (if length ms < 2 then Inr ''stable''
      else
        (case mapThrowing (\<lambda>m. case monthAt md m of Inl e \<Rightarrow> Inl e | Inr b \<Rightarrow> Inr (categoryCost ar b cat)) ms of
           Inl e \<Rightarrow> Inl e
         | Inr vs \<Rightarrow>
             (let recentValues = sliceFrom vs (- 3) in
              if length recentValues < 2 then Inr ''stable''
              else
                (let firstHalf = slice recentValues 0 \<lceil>real (length recentValues) / 2\<rceil>;
                     secondHalf = sliceFrom recentValues \<lceil>real (length recentValues) / 2\<rceil>;
                     firstAvg = orElse ar (jsDiv ar (reduceSum ar firstHalf) (jsNat ar (length firstHalf)))
                                  (jsZero ar);
                     secondAvg = orElse ar (jsDiv ar (reduceSum ar secondHalf) (jsNat ar (length secondHalf)))
                                   (jsZero ar)
                 in if jsGt ar secondAvg (jsMul ar firstAvg (jsLit ar 1.15)) then Inr ''up''
                    else if jsLt ar secondAvg (jsMul ar firstAvg (jsLit ar 0.85)) then Inr ''down''
                    else Inr ''stable''))))"

definition getRecommendation :: "'n arith \<Rightarrow> string \<Rightarrow> string \<Rightarrow> 'n \<Rightarrow> 'n \<Rightarrow> string" where
  "getRecommendation ar cat t avgCost avgRevenue =
     (if t = ''up'' \<and> jsGt ar avgCost (jsZero ar)
      then cat @ '' spending is increasing. Consider setting a budget limit.''
      else if t = ''down'' \<and> jsGt ar avgCost (jsZero ar)
      then ''Good job! '' @ cat @ '' spending is decreasing.''
      else if jsGt ar avgCost avgRevenue \<and> jsGt ar avgRevenue (jsZero ar)
      then cat @ '' costs exceed revenue. Review expenses.''
      else cat @ '' spending is stable.'')"

subsection \<open>analyzeFinances\<close>

text \<open>
  The report. Left out: \<^verbatim>\<open>predictions.months\<close> (the names of the next three months, read
  from the clock and the locale), \<^verbatim>\<open>insights\<close> (sentences built from the statistics) and
  \<^verbatim>\<open>metadata.analyzedAt\<close> (the clock). None of them throws and none is read again.
  The fields of \<^verbatim>\<open>predictions\<close> carry the names of the variables they are filled from:
  \<^verbatim>\<open>costs\<close> is \<open>categoryPredictions\<close>, \<^verbatim>\<open>revenue\<close> is \<open>categoryRevenuePredictions\<close>
  (\<^term>\<open>None\<close> for \<^verbatim>\<open>undefined\<close>), \<^verbatim>\<open>totalCost\<close>, \<^verbatim>\<open>totalRevenue\<close> and \<^verbatim>\<open>netBalance\<close>
  are \<open>totalCostPredictions\<close>, \<open>totalRevenuePredictions\<close> and \<open>netBalancePredictions\<close>.
\<close>

record 'n report_summary =
  topSpendingCategories :: "string list"
  averageMonthlySpending :: 'n
  averageMonthlyRevenue :: 'n
  spendingTrend :: string
  totalHistoricalCost :: 'n
  totalHistoricalRevenue :: 'n

record 'n report_predictions =
  categoryPredictions :: "(string \<times> 'n list) list"
  categoryRevenuePredictions :: "(string \<times> 'n list) list option"
  totalCostPredictions :: "'n list"
  totalRevenuePredictions :: "'n list"
  netBalancePredictions :: "'n list"

record 'n category_breakdown =
  currentAverage :: 'n
  predictedTrend :: string
  recommendation :: string

record report_metadata =
  transactionCount :: nat
  monthsAnalyzed :: nat
  modelType :: string

record 'n analysis =
  summary :: "'n report_summary"
  predictions :: "'n report_predictions"
  categoryBreakdown :: "(string \<times> 'n category_breakdown) list"
  metadata :: report_metadata

text \<open>
  The \<^verbatim>\<open>try\<close> block: \<^verbatim>\<open>mlPredictions\<close> stays \<^verbatim>\<open>null\<close> when training returns \<^verbatim>\<open>null\<close> and
  when training or inference throws. \<^verbatim>\<open>model.dispose()\<close> runs after the assignment, still
  inside the \<^verbatim>\<open>try\<close>: whether it throws or not, \<^verbatim>\<open>mlPredictions\<close> keeps its value.
\<close>

definition tryMLPredictions ::
  "'n arith \<Rightarrow> ('m, 'n) tf \<Rightarrow> 'n monthlyData \<Rightarrow> string list \<Rightarrow> string list \<Rightarrow> 'n totals list option" where
  "tryMLPredictions ar backend md cats ms =
     (case buildAndTrainModel ar backend md cats of
        Inl e \<Rightarrow> None
      | Inr None \<Rightarrow> None
      | Inr (Some model) \<Rightarrow>
          (case generateMLPredictions ar backend (Some model) md ms 3 of
             Inl e \<Rightarrow> None
           | Inr p \<Rightarrow> p))"

text \<open>
  The first \<^verbatim>\<open>categories.forEach\<close>, on \<^verbatim>\<open>(categoryPredictions, categoryRevenuePredictions)\<close>.
  \<^verbatim>\<open>stats.categoryTotals[cat]\<close> was assigned for every category by \<^verbatim>\<open>calculateStatistics\<close>.
\<close>

fun categoryPredictionsLoop ::
  "'n arith \<Rightarrow> 'n monthlyData \<Rightarrow> 'n statistics \<Rightarrow> string list
     \<Rightarrow> (string \<times> 'n list) list \<Rightarrow> (string \<times> 'n list) list
     \<Rightarrow> error + ((string \<times> 'n list) list \<times> (string \<times> 'n list) list)" where
  "categoryPredictionsLoop ar md stats [] cp crp = Inr (cp, crp)"
| "categoryPredictionsLoop ar md stats (cat # cs) cp crp =
     (case mapThrowing (\<lambda>m. case monthAt md m of Inl e \<Rightarrow> Inl e | Inr b \<Rightarrow> Inr (categoryCost ar b cat))
             (months stats) of
        Inl e \<Rightarrow> Inl e
      | Inr costValues \<Rightarrow>
     (case mapThrowing (\<lambda>m. case monthAt md m of Inl e \<Rightarrow> Inl e | Inr b \<Rightarrow> Inr (categoryRevenue ar b cat))
             (months stats) of
        Inl e \<Rightarrow> Inl e
      | Inr revenueValues \<Rightarrow>
     (case map_of (categoryTotals stats) cat of
        None \<Rightarrow> Inl TypeError
      | Some t \<Rightarrow>
          (let catAvgCost = jsDiv ar (cost t) (jsNat ar (countOr (count t) 1));
               catAvgRevenue = jsDiv ar (revenue t) (jsNat ar (countOr (count t) 1));
               cp' = AList.update cat (predictWithSmoothing ar costValues 3 (jsLit ar 0.3) catAvgCost) cp;
               crp' = (if list_ex (\<lambda>v. jsGt ar v (jsZero ar)) revenueValues
                       then AList.update cat
                              (predictWithSmoothing ar revenueValues 3 (jsLit ar 0.3) catAvgRevenue) crp
                       else crp)
           in categoryPredictionsLoop ar md stats cs cp' crp'))))"

text \<open>The second \<^verbatim>\<open>categories.forEach\<close>, on \<^verbatim>\<open>categoryBreakdown\<close>.\<close>

fun categoryBreakdownLoop ::
  "'n arith \<Rightarrow> 'n monthlyData \<Rightarrow> 'n statistics \<Rightarrow> string list \<Rightarrow> (string \<times> 'n category_breakdown) list
     \<Rightarrow> error + (string \<times> 'n category_breakdown) list" where
  "categoryBreakdownLoop ar md stats [] cb = Inr cb"
| "categoryBreakdownLoop ar md stats (cat # cs) cb =
     (case map_of (categoryTotals stats) cat of
        None \<Rightarrow> Inl TypeError
      | Some t \<Rightarrow>
          (let avgCost = jsDiv ar (cost t) (jsNat ar (countOr (count t) 1));
               avgRevenue = jsDiv ar (revenue t) (jsNat ar (countOr (count t) 1))
           in case getCategoryTrend ar md (months stats) cat of
                Inl e \<Rightarrow> Inl e
              | Inr t' \<Rightarrow>
                  categoryBreakdownLoop ar md stats cs
                    (AList.update cat
                       \<lparr>currentAverage = orElse ar avgCost avgRevenue,
                        predictedTrend = t',
                        recommendation = getRecommendation ar cat t' avgCost avgRevenue\<rparr> cb)))"

text \<open>The \<^verbatim>\<open>else\<close> branch of the total predictions: smoothing on the monthly totals.\<close>

definition statisticalTotals ::
  "'n arith \<Rightarrow> 'n monthlyData \<Rightarrow> 'n statistics \<Rightarrow> error + ('n list \<times> 'n list)" where
  "statisticalTotals ar md stats =
     (case mapThrowing (\<lambda>m. case monthAt md m of Inl e \<Rightarrow> Inl e | Inr b \<Rightarrow> Inr (cost b)) (months stats) of
        Inl e \<Rightarrow> Inl e
      | Inr costValues \<Rightarrow>
     (case mapThrowing (\<lambda>m. case monthAt md m of Inl e \<Rightarrow> Inl e | Inr b \<Rightarrow> Inr (revenue b)) (months stats) of
        Inl e \<Rightarrow> Inl e
      | Inr revenueValues \<Rightarrow>
          Inr (predictWithSmoothing ar costValues 3 (jsLit ar 0.3) (avgMonthlyCost stats),
               predictWithSmoothing ar revenueValues 3 (jsLit ar 0.3) (avgMonthlyRevenue stats))))"

text \<open>
  The argument is \<^term>\<open>None\<close> for \<^verbatim>\<open>null\<close> or \<^verbatim>\<open>undefined\<close>. The two \<^verbatim>\<open>throw new Error(..)\<close>
  are the only \<^verbatim>\<open>throw\<close> statements of the function.
\<close>

definition analyzeFinances ::
  "'n arith \<Rightarrow> ('m, 'n) tf \<Rightarrow> 'n transaction list option \<Rightarrow> error + 'n analysis" where
  "analyzeFinances ar backend transactions =
     (case transactions of
        None \<Rightarrow> Inl (Error ''No transactions available for analysis.'')
      | Some txs \<Rightarrow>
     if length txs = 0 then Inl (Error ''No transactions available for analysis.'')
     else
       (let md = fst (extractFeatures ar txs);
            cats = snd (extractFeatures ar txs)
        in
     if length (map fst md) = 0
     then Inl (Error ''No valid transaction data found. Please add some transactions first.'')
     else
     (case calculateStatistics ar md cats of
        Inl e \<Rightarrow> Inl e
      | Inr stats \<Rightarrow>
       (let mlPredictions = tryMLPredictions ar backend md cats (months stats) in
     (case categoryPredictionsLoop ar md stats cats [] [] of
        Inl e \<Rightarrow> Inl e
      | Inr (cp, crp) \<Rightarrow>
     (case (case mlPredictions of
              None \<Rightarrow> statisticalTotals ar md stats
            | Some ps \<Rightarrow>
                if list_ex (\<lambda>p. jsGt ar (cost p) (jsZero ar) \<or> jsGt ar (revenue p) (jsZero ar)) ps
                then Inr (map cost ps, map revenue ps)
                else statisticalTotals ar md stats) of
        Inl e \<Rightarrow> Inl e
      | Inr (tcp0, trp0) \<Rightarrow>
       (let tcp = (if list_all (\<lambda>v. jsEq ar v (jsZero ar)) tcp0 \<and> jsGt ar (avgMonthlyCost stats) (jsZero ar)
                   then replicate 3 (avgMonthlyCost stats) else tcp0);
            trp = (if list_all (\<lambda>v. jsEq ar v (jsZero ar)) trp0 \<and> jsGt ar (avgMonthlyRevenue stats) (jsZero ar)
                   then replicate 3 (avgMonthlyRevenue stats) else trp0);
            nbp = map (\<lambda>i. jsSub ar (trp ! i) (tcp ! i)) [0..<length trp]
        in
     (case categoryBreakdownLoop ar md stats cats [] of
        Inl e \<Rightarrow> Inl e
      | Inr cb \<Rightarrow>
          Inr \<lparr>summary =
                 \<lparr>topSpendingCategories = topCategories stats,
                  averageMonthlySpending = avgMonthlyCost stats,
                  averageMonthlyRevenue = avgMonthlyRevenue stats,
                  spendingTrend = trend stats,
                  totalHistoricalCost = totalCost stats,
                  totalHistoricalRevenue = totalRevenue stats\<rparr>,
               predictions =
                 \<lparr>categoryPredictions = cp,
                  categoryRevenuePredictions =
                    (if length (map fst (ownEntries crp)) > 0 then Some crp else None),
                  totalCostPredictions = tcp,
                  totalRevenuePredictions = trp,
                  netBalancePredictions = nbp\<rparr>,
               categoryBreakdown = cb,
               metadata =
                 \<lparr>transactionCount = length txs,
                  monthsAnalyzed = numMonths stats,
                  modelType = (if mlPredictions \<noteq> None then ''neural-network'' else ''statistical'')\<rparr>\<rparr>))))))))"

section \<open>Reference formulations and sample data\<close>

text \<open>
  Sample transactions in the arithmetic of the reals. The sample list: January 2024 has
  \<^verbatim>\<open>Food\<close> 30 and \<^verbatim>\<open>Rent\<close> 2 as costs and a revenue of 50 with an empty category,
  February 2024 has \<^verbatim>\<open>Food\<close> 5, and one \<^verbatim>\<open>Travel\<close> cost of 9 has a date that does not
  parse.
\<close>

definition sampleTx :: "int \<Rightarrow> nat \<Rightarrow> string \<Rightarrow> string \<Rightarrow> real \<Rightarrow> real transaction" where
  "sampleTx y m t c a = \<lparr>date = LocalDate y m, type = t, category = Some c, amount = a\<rparr>"

definition undatedTx :: "string \<Rightarrow> string \<Rightarrow> real \<Rightarrow> real transaction" where
  "undatedTx t c a = \<lparr>date = InvalidDate, type = t, category = Some c, amount = a\<rparr>"

definition sampleTransactions :: "real transaction list" where
  "sampleTransactions =
     [sampleTx 2024 0 ''cost'' ''Food'' 30,
      undatedTx ''cost'' ''Travel'' 9,
      sampleTx 2024 0 ''revenue'' [] 50,
      sampleTx 2024 1 ''cost'' ''Food'' 5,
      sampleTx 2024 0 ''cost'' ''Rent'' 2]"

text \<open>
  A list in which one category bears the name of an inherited property: January 2024
  has a \<^verbatim>\<open>constructor\<close> cost of 5 and a \<^verbatim>\<open>Food\<close> cost of 7.
\<close>

definition inheritedNameTransactions :: "real transaction list" where
  "inheritedNameTransactions =
     [sampleTx 2024 0 ''cost'' ''constructor'' 5, sampleTx 2024 0 ''cost'' ''Food'' 7]"

text \<open>
  The mean of a list of numbers: the sum, taken from 0 in the order of the list, over
  the count.
\<close>

definition mean :: "'n arith \<Rightarrow> 'n list \<Rightarrow> 'n" where
  "mean ar xs = jsDiv ar (foldl (jsAdd ar) (jsZero ar) xs) (jsNat ar (length xs))"

text \<open>
  The reference algorithm of the smoothing forecaster, step by step: the strictly positive
  values; copies of the fallback (or zeros) when there is none; copies of the value when
  there is one; otherwise smoothing seeded at the first value, the override by the mean
  of the positive values, the clamped mean of the differences of the last six values,
  and the clamped linear extrapolation.
\<close>

definition referencePredict :: "'n arith \<Rightarrow> 'n list \<Rightarrow> nat \<Rightarrow> 'n \<Rightarrow> 'n \<Rightarrow> 'n list" where
  "referencePredict ar series periods alpha fallbackAverage =
     (let positive = filter (\<lambda>v. jsGt ar v (jsZero ar)) series in
      if positive = []
      then replicate periods (if jsGt ar fallbackAverage (jsZero ar) then fallbackAverage else jsZero ar)
      else if length positive = 1 then replicate periods (hd positive)
      else
        (let smoothed =
               foldl (\<lambda>forecast v. jsAdd ar (jsMul ar alpha v) (jsMul ar (jsSub ar (jsLit ar 1) alpha) forecast))
                 (hd series) (tl series);
             avg = mean ar positive;
             forecast = (if jsLt ar smoothed (jsMul ar (jsLit ar 0.1) avg) then avg else smoothed);
             window = drop (length series - min 6 (length series)) series;
             differences = map (\<lambda>i. jsSub ar (window ! Suc i) (window ! i)) [0..<length window - 1];
             bound = jsMul ar (jsLit ar 0.2) avg;
             trendFactor = jsMax ar (jsNeg ar bound) (jsMin ar bound (mean ar differences))
         in map (\<lambda>i. jsMax ar (jsZero ar) (jsAdd ar forecast (jsMul ar trendFactor (jsNat ar (i + 1)))))
              [0..<periods]))"

text \<open>
  Two facts of the arithmetic of the machine that the reference algorithm relies on: a
  product does not depend on the order of its factors, and the mean of positive numbers
  is positive. Both hold for the doubles (a sum of \<open>n\<close> positive doubles is at least \<open>n\<close>
  times the least positive double, so that the quotient by \<open>n\<close> does not round to zero)
  and for the reals.
\<close>

definition commutativeProduct :: "'n arith \<Rightarrow> bool" where
  "commutativeProduct ar = (\<forall>a b. jsMul ar a b = jsMul ar b a)"

definition positiveMeans :: "'n arith \<Rightarrow> bool" where
  "positiveMeans ar =
     (\<forall>xs. xs \<noteq> [] \<and> (\<forall>x\<in>set xs. jsGt ar x (jsZero ar)) \<longrightarrow> jsGt ar (mean ar xs) (jsZero ar))"

text \<open>
  What a history holds for a month \<open>k\<close>: the cost and the revenue of its bucket (zero
  when the month has no bucket). The monthly series of a history are in the order of the
  sorted month keys.
\<close>

definition monthCost :: "'n arith \<Rightarrow> 'n monthlyData \<Rightarrow> string \<Rightarrow> 'n" where
  "monthCost ar md k = (case map_of md k of None \<Rightarrow> jsZero ar | Some b \<Rightarrow> cost b)"

definition monthRevenue :: "'n arith \<Rightarrow> 'n monthlyData \<Rightarrow> string \<Rightarrow> 'n" where
  "monthRevenue ar md k = (case map_of md k of None \<Rightarrow> jsZero ar | Some b \<Rightarrow> revenue b)"

definition monthlyCosts :: "'n arith \<Rightarrow> 'n monthlyData \<Rightarrow> 'n list" where
  "monthlyCosts ar md = map (monthCost ar md) (sort (map fst md))"

definition monthlyRevenues :: "'n arith \<Rightarrow> 'n monthlyData \<Rightarrow> 'n list" where
  "monthlyRevenues ar md = map (monthRevenue ar md) (sort (map fst md))"

text \<open>
  The trend rule of the statistics section, with the mean and the two factors as
  parameters: fewer than two values are steady; otherwise the window is the last three
  values (all of them when there are fewer), its first half has \<open>\<lceil>n / 2\<rceil>\<close> values, and
  the mean of the second half is compared with the mean of the first half times each
  factor.
\<close>

datatype direction = Rising | Falling | Steady

definition trendRule :: "'n arith \<Rightarrow> ('n list \<Rightarrow> 'n) \<Rightarrow> 'n \<Rightarrow> 'n \<Rightarrow> 'n list \<Rightarrow> direction" where
  "trendRule ar meanOf up down series =
     (if length series < 2 then Steady
      else
        (let window = drop (length series - 3) series;
             half = (length window + 1) div 2;
             firstMean = meanOf (take half window);
             secondMean = meanOf (drop half window)
         in if jsGt ar secondMean (jsMul ar firstMean up) then Rising
            else if jsLt ar secondMean (jsMul ar firstMean down) then Falling
            else Steady))"

definition overallLabel :: "direction \<Rightarrow> string" where
  "overallLabel d = (case d of Rising \<Rightarrow> ''increasing'' | Falling \<Rightarrow> ''decreasing'' | Steady \<Rightarrow> ''stable'')"

definition categoryLabel :: "direction \<Rightarrow> string" where
  "categoryLabel d = (case d of Rising \<Rightarrow> ''up'' | Falling \<Rightarrow> ''down'' | Steady \<Rightarrow> ''stable'')"

text \<open>Sample histories: five months with costs 100, 100, 100, 200, 220; two with 300, 100.\<close>

definition sampleMonth :: "string \<Rightarrow> real \<Rightarrow> string \<times> real bucket" where
  "sampleMonth k c = (k, \<lparr>cost = c, revenue = 0, categories = []\<rparr>)"

definition risingHistory :: "real monthlyData" where
  "risingHistory =
     [sampleMonth ''2024-01'' 100, sampleMonth ''2024-02'' 100, sampleMonth ''2024-03'' 100,
      sampleMonth ''2024-04'' 200, sampleMonth ''2024-05'' 220]"

definition fallingHistory :: "real monthlyData" where
  "fallingHistory = [sampleMonth ''2024-02'' 100, sampleMonth ''2024-01'' 300]"

text \<open>
  The training examples of the regression section: with window size \<open>w\<close>, one example
  for every month \<open>i\<close> from \<open>w\<close> on; its input is the cost and revenue (divided by 1000)
  of the \<open>w\<close> months before \<open>i\<close>, its target the cost and revenue of month \<open>i\<close>.
\<close>

definition scaledPair :: "'n arith \<Rightarrow> 'n monthlyData \<Rightarrow> string \<Rightarrow> 'n list" where
  "scaledPair ar md m =
     [jsDiv ar (monthCost ar md m) (jsLit ar 1000), jsDiv ar (monthRevenue ar md m) (jsLit ar 1000)]"

definition trainingInputs :: "'n arith \<Rightarrow> 'n monthlyData \<Rightarrow> string list \<Rightarrow> nat \<Rightarrow> 'n list list" where
  "trainingInputs ar md ms w =
     map (\<lambda>i. concat (map (\<lambda>j. scaledPair ar md (ms ! j)) [i - w..<i])) [w..<length ms]"

definition trainingTargets :: "'n arith \<Rightarrow> 'n monthlyData \<Rightarrow> string list \<Rightarrow> nat \<Rightarrow> 'n list list" where
  "trainingTargets ar md ms w = map (\<lambda>i. scaledPair ar md (ms ! i)) [w..<length ms]"

text \<open>Sample backends: one that trains and predicts constants, one whose training throws.\<close>

definition constantBackend :: "real \<Rightarrow> real \<Rightarrow> (nat, real) tf" where
  "constantBackend c r = \<lparr>fit = (\<lambda>n xs ys. Inr 0), predict = (\<lambda>m window. Inr (c, r))\<rparr>"

definition failingBackend :: "(nat, real) tf" where
  "failingBackend =
     \<lparr>fit = (\<lambda>n xs ys. Inl (BackendError ''fit'')), predict = (\<lambda>m window. Inl (BackendError ''predict''))\<rparr>"

definition stableHistory :: "real monthlyData" where
  "stableHistory =
     [sampleMonth ''2024-01'' 100, sampleMonth ''2024-02'' 100, sampleMonth ''2024-03'' 100,
      sampleMonth ''2024-04'' 100]"

text \<open>
  What the code reads as the cost of a category in a month (\<^verbatim>\<open>categories[cat]?.cost || 0\<close>
  on the bucket of the month), and what the month holds for the category: its sub-bucket,
  and the cost of the sub-bucket (zero when there is none or when the cost is falsy). The
  two agree for a category whose name is not inherited.
\<close>

definition categoryCostAt :: "'n arith \<Rightarrow> 'n monthlyData \<Rightarrow> string \<Rightarrow> string \<Rightarrow> 'n" where
  "categoryCostAt ar md c m = (case map_of md m of None \<Rightarrow> jsZero ar | Some b \<Rightarrow> categoryCost ar b c)"

definition categoryRevenueAt :: "'n arith \<Rightarrow> 'n monthlyData \<Rightarrow> string \<Rightarrow> string \<Rightarrow> 'n" where
  "categoryRevenueAt ar md c m = (case map_of md m of None \<Rightarrow> jsZero ar | Some b \<Rightarrow> categoryRevenue ar b c)"

definition subBucket :: "'n monthlyData \<Rightarrow> string \<Rightarrow> string \<Rightarrow> 'n totals option" where
  "subBucket md k c = (case map_of md k of None \<Rightarrow> None | Some b \<Rightarrow> map_of (categories b) c)"

definition subCost :: "'n arith \<Rightarrow> 'n monthlyData \<Rightarrow> string \<Rightarrow> string \<Rightarrow> 'n" where
  "subCost ar md k c =
     (case subBucket md k c of None \<Rightarrow> jsZero ar | Some s \<Rightarrow> orElse ar (cost s) (jsZero ar))"

text \<open>The monthly costs of a category, in the order of the sorted month keys.\<close>

definition categoryCosts :: "'n arith \<Rightarrow> 'n monthlyData \<Rightarrow> string \<Rightarrow> 'n list" where
  "categoryCosts ar md c = map (\<lambda>m. subCost ar md m c) (sort (map fst md))"

text \<open>The mean of \<^verbatim>\<open>getCategoryTrend\<close>: a mean that is falsy (zero, or not a number) is 0.\<close>

definition meanOrZero :: "'n arith \<Rightarrow> 'n list \<Rightarrow> 'n" where
  "meanOrZero ar xs = orElse ar (mean ar xs) (jsZero ar)"

text \<open>
  Names for three steps of \<^verbatim>\<open>analyzeFinances\<close>: the condition under which the totals are
  the regression output, the override of an all-zero series by three copies of a
  positive average, and the average over at least one month.
\<close>

definition regressionUsed :: "'n arith \<Rightarrow> 'n totals list option \<Rightarrow> bool" where
  "regressionUsed ar ml =
     (case ml of
        None \<Rightarrow> False
      | Some ps \<Rightarrow> list_ex (\<lambda>p. jsGt ar (cost p) (jsZero ar) \<or> jsGt ar (revenue p) (jsZero ar)) ps)"

definition zeroGuard :: "'n arith \<Rightarrow> 'n \<Rightarrow> 'n list \<Rightarrow> 'n list" where
  "zeroGuard ar avg xs =
     (if list_all (\<lambda>v. jsEq ar v (jsZero ar)) xs \<and> jsGt ar avg (jsZero ar) then replicate 3 avg else xs)"

definition averageOver :: "'n arith \<Rightarrow> 'n \<Rightarrow> nat \<Rightarrow> 'n" where
  "averageOver ar x n = jsDiv ar x (jsNat ar (max 1 n))"

text \<open>The totals of a report before the zero guard: regression output or smoothing.\<close>

definition chosenCosts :: "'n arith \<Rightarrow> 'n totals list option \<Rightarrow> 'n monthlyData \<Rightarrow> 'n list" where
  "chosenCosts ar ml md =
     (case ml of
        None \<Rightarrow> predictWithSmoothing ar (monthlyCosts ar md) 3 (jsLit ar 0.3)
                  (averageOver ar (reduceSum ar (monthlyCosts ar md)) (length md))
      | Some ps \<Rightarrow>
          if regressionUsed ar ml then map cost ps
          else predictWithSmoothing ar (monthlyCosts ar md) 3 (jsLit ar 0.3)
                 (averageOver ar (reduceSum ar (monthlyCosts ar md)) (length md)))"

definition chosenRevenues :: "'n arith \<Rightarrow> 'n totals list option \<Rightarrow> 'n monthlyData \<Rightarrow> 'n list" where
  "chosenRevenues ar ml md =
     (case ml of
        None \<Rightarrow> predictWithSmoothing ar (monthlyRevenues ar md) 3 (jsLit ar 0.3)
                  (averageOver ar (reduceSum ar (monthlyRevenues ar md)) (length md))
      | Some ps \<Rightarrow>
          if regressionUsed ar ml then map revenue ps
          else predictWithSmoothing ar (monthlyRevenues ar md) 3 (jsLit ar 0.3)
                 (averageOver ar (reduceSum ar (monthlyRevenues ar md)) (length md)))"

text \<open>
  The condition under which \<^verbatim>\<open>analyzeFinances\<close> has no data: the list is \<^verbatim>\<open>null\<close> or empty,
  or extraction yields no month bucket.
\<close>

definition noData :: "'n arith \<Rightarrow> 'n transaction list option \<Rightarrow> bool" where
  "noData ar t = (case t of None \<Rightarrow> True | Some txs \<Rightarrow> txs = [] \<or> fst (extractFeatures ar txs) = [])"

text \<open>Five months of \<^verbatim>\<open>Food\<close> costs 100, 100, 100, 200, 220; two months of 100 and 112.\<close>

definition fiveMonths :: "real transaction list" where
  "fiveMonths =
     [sampleTx 2024 0 ''cost'' ''Food'' 100, sampleTx 2024 1 ''cost'' ''Food'' 100,
      sampleTx 2024 2 ''cost'' ''Food'' 100, sampleTx 2024 3 ''cost'' ''Food'' 200,
      sampleTx 2024 4 ''cost'' ''Food'' 220]"

definition creepingTransactions :: "real transaction list" where
  "creepingTransactions =
     [sampleTx 2024 0 ''cost'' ''Food'' 100, sampleTx 2024 1 ''cost'' ''Food'' 112]"

text \<open>Fields of the result of an analysis, read through the \<open>Inr\<close>.\<close>

definition totalCostOf :: "error + 'n analysis \<Rightarrow> 'n list" where
  "totalCostOf res = (case res of Inl e \<Rightarrow> [] | Inr r \<Rightarrow> totalCostPredictions (predictions r))"

definition totalRevenueOf :: "error + 'n analysis \<Rightarrow> 'n list" where
  "totalRevenueOf res = (case res of Inl e \<Rightarrow> [] | Inr r \<Rightarrow> totalRevenuePredictions (predictions r))"

definition netBalanceOf :: "error + 'n analysis \<Rightarrow> 'n list" where
  "netBalanceOf res = (case res of Inl e \<Rightarrow> [] | Inr r \<Rightarrow> netBalancePredictions (predictions r))"

definition modelTypeOf :: "error + 'n analysis \<Rightarrow> string option" where
  "modelTypeOf res = (case res of Inl e \<Rightarrow> None | Inr r \<Rightarrow> Some (modelType (metadata r)))"

definition predictedTrendOf :: "error + 'n analysis \<Rightarrow> string \<Rightarrow> string option" where
  "predictedTrendOf res c =
     (case res of Inl e \<Rightarrow> None | Inr r \<Rightarrow> map_option predictedTrend (map_of (categoryBreakdown r) c))"

definition currentAverageOf :: "error + 'n analysis \<Rightarrow> string \<Rightarrow> 'n option" where
  "currentAverageOf res c =
     (case res of Inl e \<Rightarrow> None | Inr r \<Rightarrow> map_option currentAverage (map_of (categoryBreakdown r) c))"

text \<open>
  A transaction of January 2024, of type \<^verbatim>\<open>cost\<close>, whose category is \<^verbatim>\<open>constructor\<close>, the
  name of an inherited property.
\<close>

definition inheritedNameTx :: "'n \<Rightarrow> 'n transaction" where
  "inheritedNameTx a =
     \<lparr>date = LocalDate 2024 0, type = ''cost'', category = Some ''constructor'', amount = a\<rparr>"

section \<open>The arithmetic of the reals\<close>

lemma realArith_simps [simp]:
  "jsLit realArith x = x"
  "jsNat realArith n = real n"
  "jsAdd realArith = (+)"
  "jsSub realArith = (-)"
  "jsMul realArith = (*)"
  "jsDiv realArith = (/)"
  "jsNeg realArith = uminus"
  "jsLt realArith = (<)"
  "jsEq realArith = (=)"
  "jsTruthy realArith x = (x \<noteq> 0)"
  "jsMax realArith = max"
  "jsMin realArith = min"
  "jsNaN realArith = 0"
  by (simp_all add: realArith_def)

lemma orElse_real [simp]: "orElse realArith x 0 = x"
  by (simp add: orElse_def)

section \<open>Feature extraction\<close>

lemma extractFeatures_Nil: "extractFeatures ar [] = ([], [])"
  by (simp add: extractFeatures_def)

lemma extractFeatures_snoc:
  "extractFeatures ar (txs @ [tx]) = extractStep ar (extractFeatures ar txs) tx"
  by (simp add: extractFeatures_def)

lemma extractStep_invalid: "date tx = InvalidDate \<Longrightarrow> extractStep ar st tx = st"
  by (simp add: extractStep_def)

lemma snd_extractStep:
  "date tx \<noteq> InvalidDate \<Longrightarrow> snd (extractStep ar st tx) = Set_add (categoryOf tx) (snd st)"
  by (cases "date tx") (simp_all add: extractStep_def Let_def)

lemma fst_extractStep_keys:
  "date tx \<noteq> InvalidDate \<Longrightarrow>
   \<exists>b. fst (extractStep ar st tx) = AList.update (monthKeyOf (date tx)) b (fst st)"
  by (cases "date tx") (auto simp add: extractStep_def Let_def)

lemma month_present_extractFeatures:
  "(map_of (fst (extractFeatures ar txs)) k \<noteq> None) =
     (\<exists>tx\<in>set txs. date tx \<noteq> InvalidDate \<and> monthKeyOf (date tx) = k)"
proof (induction txs rule: rev_induct)
  case Nil
  show ?case by (simp add: extractFeatures_Nil)
next
  case (snoc tx txs)
  show ?case
  proof (cases "date tx = InvalidDate")
    case True
    with snoc show ?thesis
      by (auto simp add: extractFeatures_snoc extractStep_invalid)
  next
    case False
    from fst_extractStep_keys [OF False, of ar "extractFeatures ar txs"]
    obtain b where "fst (extractStep ar (extractFeatures ar txs) tx) =
        AList.update (monthKeyOf (date tx)) b (fst (extractFeatures ar txs))"
      by blast
    with False snoc show ?thesis
      by (auto simp add: extractFeatures_snoc update_conv')
  qed
qed

lemma set_Set_add: "set (Set_add x xs) = insert x (set xs)"
  by (auto simp add: Set_add_def)

lemma distinct_Set_add: "distinct xs \<Longrightarrow> distinct (Set_add x xs)"
  by (simp add: Set_add_def)

lemma distinct_categories_extractFeatures: "distinct (snd (extractFeatures ar txs))"
proof (induction txs rule: rev_induct)
  case Nil
  show ?case by (simp add: extractFeatures_Nil)
next
  case (snoc tx txs)
  then show ?case
    by (cases "date tx = InvalidDate")
       (simp_all add: extractFeatures_snoc extractStep_invalid snd_extractStep distinct_Set_add)
qed

lemma set_categories_extractFeatures:
  "set (snd (extractFeatures ar txs)) = categoryOf ` {tx \<in> set txs. date tx \<noteq> InvalidDate}"
proof (induction txs rule: rev_induct)
  case Nil
  show ?case by (simp add: extractFeatures_Nil)
next
  case (snoc tx txs)
  then show ?case
    by (cases "date tx = InvalidDate")
       (auto simp add: extractFeatures_snoc extractStep_invalid snd_extractStep set_Set_add)
qed

lemma count_list_distinct: "distinct xs \<Longrightarrow> x \<in> set xs \<Longrightarrow> count_list xs x = 1"
  by (induction xs) auto

text \<open>A month key ends in a digit: it is not the name of an inherited property.\<close>

lemma digits_last: "digits n \<noteq> [] \<and> last (digits n) \<in> set ''0123456789''"
proof -
  have "n mod 10 < 10" by simp
  then have m: "''0123456789'' ! (n mod 10) \<in> set ''0123456789''"
    by (intro nth_mem) simp
  show ?thesis
  proof (cases "n < 10")
    case True
    then have "n mod 10 = n" by simp
    with m True show ?thesis by (subst (1 2) digits.simps) simp
  next
    case False
    with m show ?thesis by (subst (1 2) digits.simps) simp
  qed
qed

lemma monthKeyOf_last: "last (monthKeyOf d) \<in> set ''0123456789''"
proof -
  define n where "n = getMonth d + 1"
  have "monthKeyOf d =
          (String (getFullYear d) @ ''-'' @ replicate (2 - length (digits n)) (CHR ''0'')) @ digits n"
  proof -
    have "nat (1 + int (getMonth d)) = Suc (getMonth d)"
      by linarith
    then show ?thesis
      by (simp add: monthKeyOf_def padStart_def String_def n_def)
  qed
  then have "last (monthKeyOf d) = last (digits n)"
    using digits_last [of n] by (metis last_appendR)
  with digits_last [of n] show ?thesis
    by simp
qed

lemma monthKeyOf_not_inherited: "monthKeyOf d \<notin> set inheritedNames"
proof
  assume "monthKeyOf d \<in> set inheritedNames"
  then have "last (monthKeyOf d) \<in> last ` set inheritedNames"
    by (rule imageI)
  then have "last (monthKeyOf d) \<in> {CHR ''r'', CHR ''y'', CHR ''f'', CHR ''e'', CHR ''g'', CHR ''_''}"
    by (auto simp add: inheritedNames_def)
  with monthKeyOf_last [of d] show False
    by auto
qed

text \<open>
  Claim C9, as the code has it. The callback returns before \<^verbatim>\<open>categories.add\<close> when the date
  is invalid. So a category string (a missing or empty one read as \<^verbatim>\<open>'Other'\<close>) occurs
  exactly once in the returned category list when it is the category of some transaction
  with a valid date, and does not occur at all otherwise.
\<close>

theorem extractFeatures_category_once:
  "count_list (snd (extractFeatures ar txs)) c =
     (if \<exists>tx\<in>set txs. date tx \<noteq> InvalidDate \<and> categoryOf tx = c then 1 else 0)"
proof (cases "c \<in> set (snd (extractFeatures ar txs))")
  case True
  then have "count_list (snd (extractFeatures ar txs)) c = 1"
    using distinct_categories_extractFeatures [of ar txs] by (simp add: count_list_distinct)
  with True show ?thesis
    by (auto simp add: set_categories_extractFeatures)
next
  case False
  then have "count_list (snd (extractFeatures ar txs)) c = 0"
    by (simp add: count_list_0_iff)
  with False show ?thesis
    by (auto simp add: set_categories_extractFeatures)
qed

lemma monthKeys_2024:
  "monthKeyOf (LocalDate 2024 0) = ''2024-01''"
  "monthKeyOf (LocalDate 2024 (Suc 0)) = ''2024-02''"
  "monthKeyOf (LocalDate 2024 2) = ''2024-03''"
  "monthKeyOf (LocalDate 2024 3) = ''2024-04''"
  "monthKeyOf (LocalDate 2024 4) = ''2024-05''"
  by (simp_all add: monthKeyOf_def String_def padStart_def digits.simps)

lemma getProp_simps:
  "getProp [] k = (if k \<in> set inheritedNames then Inherited else Absent)"
  "getProp ((k', v) # obj) k = (if k = k' then Own v else getProp obj k)"
  by (simp_all add: getProp_def)

lemma sample_names:
  "''Food'' \<notin> set inheritedNames" "''Other'' \<notin> set inheritedNames"
  "''Rent'' \<notin> set inheritedNames" "''constructor'' \<in> set inheritedNames"
  by (simp_all add: inheritedNames_def)

lemma sample_features:
  "extractFeatures realArith sampleTransactions =
     ([(''2024-01'', \<lparr>cost = 32, revenue = 50,
          categories = [(''Food'', \<lparr>cost = 30, revenue = 0\<rparr>), (''Other'', \<lparr>cost = 0, revenue = 50\<rparr>),
                        (''Rent'', \<lparr>cost = 2, revenue = 0\<rparr>)]\<rparr>),
       (''2024-02'', \<lparr>cost = 5, revenue = 0, categories = [(''Food'', \<lparr>cost = 5, revenue = 0\<rparr>)]\<rparr>)],
      [''Food'', ''Other'', ''Rent''])"
  by (simp add: sampleTransactions_def sampleTx_def undatedTx_def extractFeatures_def extractStep_def
      Let_def monthKeys_2024 categoryOf_def amountOf_def getProp_simps sample_names
      Set_add_def emptyBucket_def emptyTotals_def)

text \<open>The sample list: two dated categories occur once, the undated one does not occur.\<close>

theorem extractFeatures_category_once_witness:
  "count_list (snd (extractFeatures realArith sampleTransactions)) ''Food'' = 1
   \<and> count_list (snd (extractFeatures realArith sampleTransactions)) ''Other'' = 1
   \<and> count_list (snd (extractFeatures realArith sampleTransactions)) ''Travel'' = 0"
  using extractFeatures_category_once [of realArith sampleTransactions "''Food''"]
    extractFeatures_category_once [of realArith sampleTransactions "''Other''"]
    extractFeatures_category_once [of realArith sampleTransactions "''Travel''"]
  by (simp add: sample_features)

text \<open>
  Claim C9 as stated fails: \<^verbatim>\<open>Travel\<close> appears in the input, on a transaction whose date
  does not parse, and is not in the category list.
\<close>

theorem category_of_undated_transaction_counterexample:
  "undatedTx ''cost'' ''Travel'' 9 \<in> set sampleTransactions
   \<and> categoryOf (undatedTx ''cost'' ''Travel'' 9) = ''Travel''
   \<and> count_list (snd (extractFeatures realArith sampleTransactions)) ''Travel'' \<noteq> 1"
  by (simp add: sample_features) (simp add: sampleTransactions_def undatedTx_def categoryOf_def)

text \<open>
  Claim C3 at a category that bears the name of an inherited property. Both
  transactions have a date that parses and both are counted in the bucket of their
  month, whose cost is 12. The \<^verbatim>\<open>Food\<close> cost has its sub-bucket. The \<^verbatim>\<open>constructor\<close> cost
  has none: \<^verbatim>\<open>categories['constructor']\<close> is the inherited function, which is truthy, so
  no sub-bucket is created and the amount is added to a property of that function. The
  sub-buckets of the month hold 7 of the 12.
\<close>

theorem extractFeatures_inherited_name_no_sub_bucket:
  "extractFeatures realArith inheritedNameTransactions =
     ([(''2024-01'', \<lparr>cost = 12, revenue = 0, categories = [(''Food'', \<lparr>cost = 7, revenue = 0\<rparr>)]\<rparr>)],
      [''constructor'', ''Food''])"
  by (simp add: inheritedNameTransactions_def sampleTx_def extractFeatures_def extractStep_def
      Let_def monthKeys_2024 categoryOf_def amountOf_def getProp_simps sample_names
      Set_add_def emptyBucket_def emptyTotals_def)

section \<open>The smoothing forecaster\<close>

lemma mean_reduceSum: "jsDiv ar (reduceSum ar xs) (jsNat ar (length xs)) = mean ar xs"
  by (simp add: mean_def reduceSum_def)

lemma foldl_add_real: "foldl (+) a xs = a + sum_list (xs :: real list)"
  by (induction xs arbitrary: a) simp_all

lemma mean_real: "mean realArith xs = sum_list xs / real (length xs)"
  by (simp add: mean_def foldl_add_real)

lemma reduceSum_real: "reduceSum realArith xs = sum_list xs"
  by (simp add: reduceSum_def foldl_add_real)

lemma sliceFrom_nonneg: "0 \<le> k \<Longrightarrow> sliceFrom xs k = drop (nat k) xs"
  by (auto simp add: sliceFrom_def slice_def Let_def min_def)

lemma sliceFrom_neg: "k < 0 \<Longrightarrow> sliceFrom xs k = drop (length xs - nat (- k)) xs"
proof -
  assume k: "k < 0"
  have "nat (max (int (length xs) + k) 0) = length xs - nat (- k)"
    using k by (simp add: max_def) linarith
  then show ?thesis
    using k by (simp add: sliceFrom_def slice_def Let_def)
qed

lemma slice_prefix: "0 \<le> k \<Longrightarrow> slice xs 0 k = take (nat k) xs"
  by (auto simp add: slice_def Let_def min_def)

lemma smoothingLoop_foldl:
  "smoothingLoop ar alpha vs i forecast =
     foldl (\<lambda>forecast v. jsAdd ar (jsMul ar alpha v) (jsMul ar (jsSub ar (jsLit ar 1) alpha) forecast))
       forecast (drop i vs)"
proof (induction ar alpha vs i forecast rule: smoothingLoop.induct)
  case (1 ar alpha vs i forecast)
  show ?case
  proof (cases "i < length vs")
    case True
    then have "drop i vs = vs ! i # drop (i + 1) vs"
      by (simp add: Cons_nth_drop_Suc)
    with True 1 show ?thesis
      by (subst smoothingLoop.simps) simp
  next
    case False
    then show ?thesis
      by (subst smoothingLoop.simps) simp
  qed
qed

lemma changesLoop_map:
  "changesLoop ar recentValues i changes =
     changes @ map (\<lambda>j. jsSub ar (recentValues ! j) (recentValues ! (j - 1))) [i..<length recentValues]"
proof (induction ar recentValues i changes rule: changesLoop.induct)
  case (1 ar recentValues i changes)
  show ?case
  proof (cases "i < length recentValues")
    case True
    with 1 show ?thesis
      by (subst changesLoop.simps) (simp add: upt_conv_Cons)
  next
    case False
    then show ?thesis
      by (subst changesLoop.simps) simp
  qed
qed

lemma changesLoop_differences:
  "changesLoop ar w 1 [] = map (\<lambda>i. jsSub ar (w ! Suc i) (w ! i)) [0..<length w - 1]"
proof -
  have "map (\<lambda>j. jsSub ar (w ! j) (w ! (j - 1))) [1..<length w] =
          map (\<lambda>j. jsSub ar (w ! j) (w ! (j - 1))) (map Suc [0..<length w - 1])"
    by (cases "length w") (simp_all add: map_Suc_upt)
  then show ?thesis
    by (simp add: changesLoop_map comp_def)
qed

lemma predictionsLoop_map:
  "predictionsLoop ar forecast trendFactor periods i acc =
     acc @ map (\<lambda>j. jsMax ar (jsZero ar) (jsAdd ar forecast (jsMul ar trendFactor (jsNat ar (j + 1)))))
             [i..<periods]"
proof (induction ar forecast trendFactor periods i acc rule: predictionsLoop.induct)
  case (1 ar forecast trendFactor periods i acc)
  show ?case
  proof (cases "i < periods")
    case True
    with 1 show ?thesis
      by (subst predictionsLoop.simps) (simp add: upt_conv_Cons)
  next
    case False
    then show ?thesis
      by (subst predictionsLoop.simps) simp
  qed
qed

lemma commutativeProduct_real: "commutativeProduct realArith"
  by (simp add: commutativeProduct_def)

lemma positiveMeans_real: "positiveMeans realArith"
proof -
  have "0 < sum_list xs / real (length xs)" if "xs \<noteq> []" and "\<forall>x\<in>set xs. 0 < (x::real)" for xs
  proof -
    have "0 < sum_list xs"
      using that by (induction xs) (auto intro: add_pos_nonneg sum_list_nonneg less_imp_le)
    with that(1) show ?thesis by simp
  qed
  then show ?thesis
    by (simp add: positiveMeans_def mean_real)
qed

lemma length_referencePredict:
  "length (referencePredict ar series periods alpha fallbackAverage) = periods"
proof -
  have "length (if c then xs else ys) = (if c then length xs else length ys)" for c and xs ys :: "'a list"
    by simp
  then show ?thesis
    unfolding referencePredict_def Let_def
    by (simp only: length_replicate length_map length_upt if_cancel diff_zero)
qed

lemma predictWithSmoothing_refines:
  assumes comm: "commutativeProduct ar" and means: "positiveMeans ar"
  shows "predictWithSmoothing ar series periods alpha fallbackAverage =
     referencePredict ar series periods alpha fallbackAverage"
proof (cases "length (filter (\<lambda>v. jsGt ar v (jsZero ar)) series) \<le> 1")
  case True
  then consider "(filter (\<lambda>v. jsGt ar v (jsZero ar)) series) = []"
    | "length (filter (\<lambda>v. jsGt ar v (jsZero ar)) series) = 1"
    by (cases "filter (\<lambda>v. jsGt ar v (jsZero ar)) series") auto
  then show ?thesis
  proof cases
    case 1
    then show ?thesis
      by (simp add: predictWithSmoothing_def referencePredict_def)
  next
    case 2
    then have "(filter (\<lambda>v. jsGt ar v (jsZero ar)) series) \<noteq> []" by auto
    with 2 show ?thesis
      by (simp add: predictWithSmoothing_def referencePredict_def hd_conv_nth)
  qed
next
  case False
  let ?pos = "filter (\<lambda>v. jsGt ar v (jsZero ar)) series"
  from False have many: "2 \<le> length ?pos" by simp
  then have pos_ne: "?pos \<noteq> []" by (cases "?pos") simp_all
  have "length ?pos \<le> length series" by simp
  with many have len: "2 \<le> length series" by linarith
  then have ne: "series \<noteq> []" by (cases series) simp_all
  have avg_pos: "jsLt ar (jsZero ar) (mean ar ?pos)"
    using means pos_ne unfolding positiveMeans_def by auto
  have smooth: "smoothingLoop ar alpha series 1 (series ! 0) =
      foldl (\<lambda>forecast v. jsAdd ar (jsMul ar alpha v) (jsMul ar (jsSub ar (jsLit ar 1) alpha) forecast))
        (hd series) (tl series)"
    using ne by (simp add: smoothingLoop_foldl hd_conv_nth drop_Suc)
  have window: "sliceFrom series (- int (min 6 (length series))) =
      drop (length series - min 6 (length series)) series"
    using len ne by (subst sliceFrom_neg) simp_all
  have wlen: "2 \<le> length (drop (length series - min 6 (length series)) series)"
    using len by simp
  have n0: "length ?pos \<noteq> 0" and n1: "length ?pos \<noteq> 1"
    using many by linarith+
  have c01: "jsMul ar (mean ar ?pos) (jsLit ar 0.1) = jsMul ar (jsLit ar 0.1) (mean ar ?pos)"
    and c02: "jsMul ar (mean ar ?pos) (jsLit ar 0.2) = jsMul ar (jsLit ar 0.2) (mean ar ?pos)"
    using comm unfolding commutativeProduct_def by blast+
  show ?thesis
    unfolding predictWithSmoothing_def referencePredict_def Let_def
    by (simp only: n0 n1 pos_ne if_False smooth window mean_reduceSum changesLoop_differences
        predictionsLoop_map append_Nil wlen if_True avg_pos simp_thms c01 c02)
qed

text \<open>
  Claim C2. In the arithmetic of the machine, \<^verbatim>\<open>predictWithSmoothing\<close> returns the list of
  the reference algorithm, of length \<open>periods\<close>, for every series, every count \<open>periods\<close>,
  every \<open>alpha\<close> and every fallback average: each sum, product, quotient and comparison
  of the reference algorithm is the one of the machine. The function of the model is
  total and reads nothing but its arguments.
\<close>

theorem predictWithSmoothing_reference:
  "commutativeProduct ar \<Longrightarrow> positiveMeans ar \<Longrightarrow>
   predictWithSmoothing ar series periods alpha fallbackAverage =
     referencePredict ar series periods alpha fallbackAverage
   \<and> length (predictWithSmoothing ar series periods alpha fallbackAverage) = periods"
  by (simp only: predictWithSmoothing_refines length_referencePredict simp_thms)

text \<open>
  In the arithmetic of the reals, on the four months 100, 120, 110, 130: smoothing gives
  114.04, the mean difference 10 is inside the clamp of 23, and the three predictions
  are 124.04, 134.04 and 144.04.
\<close>

theorem predictWithSmoothing_reference_witness:
  "commutativeProduct realArith \<and> positiveMeans realArith
   \<and> predictWithSmoothing realArith [100, 120, 110, 130] 3 0.3 0 = [124.04, 134.04, 144.04]
   \<and> referencePredict realArith [100, 120, 110, 130] 3 0.3 0 = [124.04, 134.04, 144.04]
   \<and> length (predictWithSmoothing realArith [100, 120, 110, 130] 3 0.3 0) = 3"
proof -
  have "referencePredict realArith [100, 120, 110, 130] 3 0.3 0 = [124.04, 134.04, 144.04]"
    by (simp add: referencePredict_def mean_real Let_def upt_rec_numeral numeral_nat)
  with predictWithSmoothing_reference [OF commutativeProduct_real positiveMeans_real,
      of "[100, 120, 110, 130]" 3 "0.3" 0]
  show ?thesis by (simp add: commutativeProduct_real positiveMeans_real)
qed

section \<open>Statistics\<close>

lemma mapThrowing_Inr:
  "(\<And>x. x \<in> set xs \<Longrightarrow> f x = Inr (g x)) \<Longrightarrow> mapThrowing f xs = Inr (map g xs)"
  by (induction xs) simp_all

lemma monthAt_key:
  "m \<in> fst ` set md \<Longrightarrow> \<exists>b. monthAt md m = Inr b \<and> map_of md m = Some b"
  by (cases "map_of md m") (auto simp add: monthAt_def map_of_eq_None_iff)

lemma monthAt_cost:
  "m \<in> fst ` set md \<Longrightarrow>
   (case monthAt md m of Inl e \<Rightarrow> Inl e | Inr b \<Rightarrow> Inr (cost b)) = Inr (monthCost ar md m)"
  using monthAt_key [of m md] by (auto simp add: monthCost_def)

lemma monthAt_revenue:
  "m \<in> fst ` set md \<Longrightarrow>
   (case monthAt md m of Inl e \<Rightarrow> Inl e | Inr b \<Rightarrow> Inr (revenue b)) = Inr (monthRevenue ar md m)"
  using monthAt_key [of m md] by (auto simp add: monthRevenue_def)

lemma ceiling_half: "nat \<lceil>real n / 2\<rceil> = (n + 1) div 2"
proof (cases "even n")
  case True
  then obtain k where n: "n = 2 * k" by (auto elim: evenE)
  have "\<lceil>real n / 2\<rceil> = int k"
    by (rule ceiling_unique) (simp_all add: n)
  then show ?thesis by (simp add: n)
next
  case False
  then obtain k where n: "n = 2 * k + 1" by (auto elim: oddE)
  have "\<lceil>real n / 2\<rceil> = int k + 1"
    by (rule ceiling_unique) (simp_all add: n field_simps)
  then show ?thesis by (simp add: n)
qed

lemma costTrend_rule:
  assumes "2 \<le> length xs"
  shows "costTrend ar (sliceFrom xs (- 3)) =
           overallLabel (trendRule ar (mean ar) (jsLit ar 1.1) (jsLit ar 0.9) xs)"
proof -
  define w where "w = drop (length xs - 3) xs"
  define h where "h = (length w + 1) div 2"
  have w: "sliceFrom xs (- 3) = w"
    by (simp add: sliceFrom_neg w_def)
  have len: "2 \<le> length w"
    using assms by (simp add: w_def)
  have first: "slice w 0 \<lceil>real (length w) / 2\<rceil> = take h w"
    by (simp add: slice_prefix ceiling_half h_def)
  have second: "sliceFrom w \<lceil>real (length w) / 2\<rceil> = drop h w"
    by (simp add: sliceFrom_nonneg ceiling_half h_def)
  have lhs: "costTrend ar w =
      (if jsGt ar (mean ar (drop h w)) (jsMul ar (mean ar (take h w)) (jsLit ar 1.1))
       then ''increasing''
       else if jsLt ar (mean ar (drop h w)) (jsMul ar (mean ar (take h w)) (jsLit ar 0.9))
       then ''decreasing'' else ''stable'')"
    unfolding costTrend_def Let_def
    by (simp only: len if_True first second mean_reduceSum)
  have rhs: "trendRule ar (mean ar) (jsLit ar 1.1) (jsLit ar 0.9) xs =
      (if jsGt ar (mean ar (drop h w)) (jsMul ar (mean ar (take h w)) (jsLit ar 1.1))
       then Rising
       else if jsLt ar (mean ar (drop h w)) (jsMul ar (mean ar (take h w)) (jsLit ar 0.9))
       then Falling else Steady)"
    unfolding trendRule_def Let_def
    using assms by (simp only: w_def [symmetric] h_def [symmetric] not_less [symmetric] if_False simp_thms)
  show ?thesis
    by (simp only: w lhs rhs overallLabel_def if_distrib [of "case_direction _ _ _"] direction.case)
qed

lemma map_of_initCategoryTotals:
  "map_of (initCategoryTotals ar cats) c =
     (if c \<in> set cats then Some \<lparr>cost = jsZero ar, revenue = jsZero ar, count = 0\<rparr> else None)"
proof -
  have "map_of (foldl (\<lambda>ct cat. AList.update cat \<lparr>cost = jsZero ar, revenue = jsZero ar, count = 0\<rparr> ct)
                  ct0 cats) c =
          (if c \<in> set cats then Some \<lparr>cost = jsZero ar, revenue = jsZero ar, count = 0\<rparr>
           else map_of ct0 c)" for ct0
    by (induction cats arbitrary: ct0) (auto simp add: update_conv')
  then show ?thesis
    by (simp add: initCategoryTotals_def)
qed

lemma addMonthToCategories_result:
  assumes "\<forall>c\<in>set cs. map_of ct c \<noteq> None"
  shows "\<exists>ct'. addMonthToCategories ar b cs ct = Inr ct'
           \<and> (\<forall>c. (map_of ct' c \<noteq> None) = (map_of ct c \<noteq> None))"
  using assms
proof (induction cs arbitrary: ct)
  case Nil
  then show ?case by simp
next
  case (Cons cat cs)
  from Cons.prems obtain t where t: "map_of ct cat = Some t" by auto
  have step: "\<exists>ct'. addMonthToCategories ar b cs (AList.update cat t' ct) = Inr ct'
           \<and> (\<forall>c. (map_of ct' c \<noteq> None) = (map_of ct c \<noteq> None))" for t'
  proof -
    have m1: "(map_of (AList.update cat t' ct) c \<noteq> None) = (map_of ct c \<noteq> None)" for c
      using t by (simp add: update_conv')
    from Cons.prems have "\<forall>c\<in>set cs. map_of (AList.update cat t' ct) c \<noteq> None"
      by (auto simp add: update_conv')
    from Cons.IH [OF this] obtain ct' where
      "addMonthToCategories ar b cs (AList.update cat t' ct) = Inr ct'"
      and "\<forall>c. (map_of ct' c \<noteq> None) = (map_of (AList.update cat t' ct) c \<noteq> None)"
      by blast
    with m1 show ?thesis
      by metis
  qed
  from Cons.prems have rest: "\<forall>c\<in>set cs. map_of ct c \<noteq> None" by simp
  show ?case
  proof (cases "getProp (categories b) cat")
    case Absent
    with Cons.IH [OF rest] show ?thesis by simp
  next
    case (Own s)
    with t step show ?thesis by simp
  next
    case Inherited
    with t step show ?thesis by simp
  qed
qed

lemma monthsLoop_result:
  assumes "set ms \<subseteq> fst ` set md" and "\<forall>c\<in>set cats. map_of ct c \<noteq> None"
  shows "\<exists>ct'. monthsLoop ar md cats ms (tc, tr, ct) =
                 Inr (foldl (jsAdd ar) tc (map (monthCost ar md) ms),
                      foldl (jsAdd ar) tr (map (monthRevenue ar md) ms), ct')
           \<and> (\<forall>c. (map_of ct' c \<noteq> None) = (map_of ct c \<noteq> None))"
  using assms
proof (induction ms arbitrary: tc tr ct)
  case Nil
  then show ?case by simp
next
  case (Cons m ms)
  from Cons.prems(1) obtain b where b: "monthAt md m = Inr b" "map_of md m = Some b"
    using monthAt_key [of m md] by auto
  from addMonthToCategories_result [OF Cons.prems(2), of ar b] obtain ct1 where
    r1: "addMonthToCategories ar b cats ct = Inr ct1"
    and d1: "\<forall>c. (map_of ct1 c \<noteq> None) = (map_of ct c \<noteq> None)"
    by blast
  have sub: "set ms \<subseteq> fst ` set md"
    using Cons.prems(1) by simp
  have dom1: "\<forall>c\<in>set cats. map_of ct1 c \<noteq> None"
    using Cons.prems(2) d1 by simp
  from Cons.IH [OF sub dom1, of "jsAdd ar tc (cost b)" "jsAdd ar tr (revenue b)"] obtain ct' where
    r: "monthsLoop ar md cats ms (jsAdd ar tc (cost b), jsAdd ar tr (revenue b), ct1) =
          Inr (foldl (jsAdd ar) (jsAdd ar tc (cost b)) (map (monthCost ar md) ms),
               foldl (jsAdd ar) (jsAdd ar tr (revenue b)) (map (monthRevenue ar md) ms), ct')"
    and d: "\<forall>c. (map_of ct' c \<noteq> None) = (map_of ct1 c \<noteq> None)"
    by blast
  have "monthsLoop ar md cats (m # ms) (tc, tr, ct) =
          Inr (foldl (jsAdd ar) tc (map (monthCost ar md) (m # ms)),
               foldl (jsAdd ar) tr (map (monthRevenue ar md) (m # ms)), ct')"
    using b r1 r by (simp add: monthCost_def monthRevenue_def)
  moreover have "\<forall>c. (map_of ct' c \<noteq> None) = (map_of ct c \<noteq> None)"
    using d d1 by simp
  ultimately show ?case by blast
qed

lemma sliceFrom_map: "sliceFrom (map f xs) k = map f (sliceFrom xs k)"
  by (simp add: sliceFrom_def slice_def Let_def take_map drop_map)

lemma set_sliceFrom: "set (sliceFrom xs k) \<subseteq> set xs"
  by (auto simp add: sliceFrom_def slice_def Let_def dest: in_set_takeD in_set_dropD)

lemma calculateStatistics_result:
  "\<exists>ct. calculateStatistics ar md cats =
          Inr \<lparr>avgMonthlyCost = jsDiv ar (reduceSum ar (monthlyCosts ar md)) (jsNat ar (max 1 (length md))),
               avgMonthlyRevenue =
                 jsDiv ar (reduceSum ar (monthlyRevenues ar md)) (jsNat ar (max 1 (length md))),
               totalCost = reduceSum ar (monthlyCosts ar md),
               totalRevenue = reduceSum ar (monthlyRevenues ar md),
               trend = overallLabel (trendRule ar (mean ar) (jsLit ar 1.1) (jsLit ar 0.9) (monthlyCosts ar md)),
               topCategories = topOf ar ct,
               categoryTotals = ct,
               months = sort (map fst md),
               numMonths = max 1 (length md)\<rparr>
        \<and> (\<forall>c. (map_of ct c \<noteq> None) = (c \<in> set cats))"
proof -
  define ms where "ms = sort (map fst md)"
  have keys: "set ms \<subseteq> fst ` set md"
    by (simp add: ms_def)
  have len: "length ms = length md"
    by (simp add: ms_def)
  have init: "\<forall>c\<in>set cats. map_of (initCategoryTotals ar cats) c \<noteq> None"
    by (simp add: map_of_initCategoryTotals)
  from monthsLoop_result [OF keys init, of ar "jsZero ar" "jsZero ar"] obtain ct where
    r: "monthsLoop ar md cats ms (jsZero ar, jsZero ar, initCategoryTotals ar cats) =
          Inr (reduceSum ar (map (monthCost ar md) ms), reduceSum ar (map (monthRevenue ar md) ms), ct)"
    and d: "\<forall>c. (map_of ct c \<noteq> None) = (map_of (initCategoryTotals ar cats) c \<noteq> None)"
    unfolding reduceSum_def by auto
  have n: "countOr (length ms) 1 = max 1 (length md)"
    by (cases "length md") (simp_all add: countOr_def len)
  have recent: "mapThrowing (\<lambda>m. case monthAt md m of Inl e \<Rightarrow> Inl e | Inr b \<Rightarrow> Inr (cost b))
                  (sliceFrom ms (- 3)) = Inr (sliceFrom (map (monthCost ar md) ms) (- 3))"
    unfolding sliceFrom_map
    using keys set_sliceFrom [of ms "- 3"]
    by (intro mapThrowing_Inr monthAt_cost) auto
  have t: "(if length ms \<ge> 2
            then (case mapThrowing (\<lambda>m. case monthAt md m of Inl e \<Rightarrow> Inl e | Inr b \<Rightarrow> Inr (cost b))
                         (sliceFrom ms (- 3)) of
                    Inl e \<Rightarrow> Inl e
                  | Inr recentCosts \<Rightarrow> Inr (costTrend ar recentCosts))
            else Inr ''stable'') =
           Inr (overallLabel (trendRule ar (mean ar) (jsLit ar 1.1) (jsLit ar 0.9) (map (monthCost ar md) ms)))"
  proof (cases "length ms \<ge> 2")
    case True
    then have "2 \<le> length (map (monthCost ar md) ms)" by simp
    from costTrend_rule [OF this, of ar] True show ?thesis
      by (simp add: recent)
  next
    case False
    then show ?thesis
      by (simp add: trendRule_def overallLabel_def)
  qed
  have result: "calculateStatistics ar md cats =
          Inr \<lparr>avgMonthlyCost = jsDiv ar (reduceSum ar (monthlyCosts ar md)) (jsNat ar (max 1 (length md))),
               avgMonthlyRevenue =
                 jsDiv ar (reduceSum ar (monthlyRevenues ar md)) (jsNat ar (max 1 (length md))),
               totalCost = reduceSum ar (monthlyCosts ar md),
               totalRevenue = reduceSum ar (monthlyRevenues ar md),
               trend = overallLabel (trendRule ar (mean ar) (jsLit ar 1.1) (jsLit ar 0.9) (monthlyCosts ar md)),
               topCategories = topOf ar ct,
               categoryTotals = ct,
               months = sort (map fst md),
               numMonths = max 1 (length md)\<rparr>"
    unfolding calculateStatistics_def Let_def monthlyCosts_def monthlyRevenues_def ms_def [symmetric]
    by (simp only: r t n sum.case prod.case)
  have dom: "\<forall>c. (map_of ct c \<noteq> None) = (c \<in> set cats)"
    using d by (simp add: map_of_initCategoryTotals)
  from result dom show ?thesis by blast
qed

lemma monthlyCosts_risingHistory: "monthlyCosts realArith risingHistory = [100, 100, 100, 200, 220]"
  by (simp add: monthlyCosts_def risingHistory_def sampleMonth_def monthCost_def)

lemma monthlyCosts_fallingHistory: "monthlyCosts realArith fallingHistory = [300, 100]"
  by (simp add: monthlyCosts_def fallingHistory_def sampleMonth_def monthCost_def)

text \<open>
  Claim C4. In the arithmetic of the machine, for every history and every category list,
  \<^verbatim>\<open>calculateStatistics\<close> returns statistics whose trend is the label of the trend rule
  with the factors 1.1 and 0.9 on the monthly costs in month order: \<^verbatim>\<open>stable\<close> under two
  months, otherwise decided on the last three values (or two), split after \<open>\<lceil>n / 2\<rceil>\<close>,
  by comparing the mean of the second half with the products of the mean of the first half
  and each factor, means, products and comparisons being those of the machine. The monthly
  costs 100, 100, 100, 200, 220 are \<^verbatim>\<open>increasing\<close>.
\<close>

theorem calculateStatistics_trend:
  "(\<exists>stats. calculateStatistics ar md cats = Inr stats
      \<and> trend stats =
          overallLabel (trendRule ar (mean ar) (jsLit ar 1.1) (jsLit ar 0.9) (monthlyCosts ar md)))
   \<and> (\<exists>stats. calculateStatistics realArith risingHistory [] = Inr stats
      \<and> monthlyCosts realArith risingHistory = [100, 100, 100, 200, 220]
      \<and> trend stats = ''increasing'')"
proof
  show "\<exists>stats. calculateStatistics ar md cats = Inr stats
      \<and> trend stats =
          overallLabel (trendRule ar (mean ar) (jsLit ar 1.1) (jsLit ar 0.9) (monthlyCosts ar md))"
    using calculateStatistics_result [of ar md cats] by auto
  have "overallLabel (trendRule realArith (mean realArith) 1.1 0.9 [100, 100, 100, 200, 220]) = ''increasing''"
    by (simp add: trendRule_def overallLabel_def mean_real Let_def)
  then show "\<exists>stats. calculateStatistics realArith risingHistory [] = Inr stats
      \<and> monthlyCosts realArith risingHistory = [100, 100, 100, 200, 220]
      \<and> trend stats = ''increasing''"
    using calculateStatistics_result [of realArith risingHistory "[]"]
    by (auto simp add: monthlyCosts_risingHistory)
qed

text \<open>
  In the arithmetic of the reals, two months with costs 300 then 100 (entered out of
  order) are \<^verbatim>\<open>decreasing\<close>: the second half averages 100, below 300 times 0.9.
\<close>

theorem calculateStatistics_trend_witness:
  "\<exists>stats. calculateStatistics realArith fallingHistory [] = Inr stats
     \<and> monthlyCosts realArith fallingHistory = [300, 100]
     \<and> trend stats = ''decreasing''"
proof -
  have "overallLabel (trendRule realArith (mean realArith) 1.1 0.9 [300, 100]) = ''decreasing''"
    by (simp add: trendRule_def overallLabel_def mean_real Let_def)
  with calculateStatistics_trend [of realArith fallingHistory "[]"] show ?thesis
    by (auto simp add: monthlyCosts_fallingHistory)
qed

section \<open>The regression forecaster\<close>

lemma monthAtIndex_key:
  assumes "j < length ms" and "set ms \<subseteq> fst ` set md"
  shows "\<exists>b. monthAtIndex md ms j = Inr b
           \<and> [jsDiv ar (cost b) (jsLit ar 1000), jsDiv ar (revenue b) (jsLit ar 1000)] =
               scaledPair ar md (ms ! j)"
proof -
  from assms have "ms ! j \<in> fst ` set md"
    using nth_mem by blast
  from monthAt_key [OF this] assms(1) show ?thesis
    by (auto simp add: monthAtIndex_def scaledPair_def monthCost_def monthRevenue_def)
qed

lemma windowLoop_result:
  assumes "i \<le> length ms" and "set ms \<subseteq> fst ` set md"
  shows "windowLoop ar md ms j i inputWindow =
           Inr (inputWindow @ concat (map (\<lambda>j. scaledPair ar md (ms ! j)) [j..<i]))"
  using assms
proof (induction ar md ms j i inputWindow rule: windowLoop.induct)
  case (1 ar md ms j i inputWindow)
  show ?case
  proof (cases "j < i")
    case True
    with "1.prems" have "j < length ms" by simp
    from monthAtIndex_key [OF this "1.prems"(2), of ar] obtain b where
      b: "monthAtIndex md ms j = Inr b"
        "[jsDiv ar (cost b) (jsLit ar 1000), jsDiv ar (revenue b) (jsLit ar 1000)] = scaledPair ar md (ms ! j)"
      by blast
    from "1.IH" [OF True b(1) "1.prems"] b True show ?thesis
      by (subst windowLoop.simps) (simp add: upt_conv_Cons)
  next
    case False
    then show ?thesis
      by (subst windowLoop.simps) simp
  qed
qed

lemma samplesLoop_result:
  assumes "set ms \<subseteq> fst ` set md"
  shows "samplesLoop ar md ms w i xs ys =
           Inr (xs @ map (\<lambda>i. concat (map (\<lambda>j. scaledPair ar md (ms ! j)) [i - w..<i])) [i..<length ms],
                ys @ map (\<lambda>i. scaledPair ar md (ms ! i)) [i..<length ms])"
  using assms
proof (induction ar md ms w i xs ys rule: samplesLoop.induct)
  case (1 ar md ms w i xs ys)
  show ?case
  proof (cases "i < length ms")
    case True
    then have le: "i \<le> length ms" by simp
    have win: "windowLoop ar md ms (i - w) i [] =
                 Inr (concat (map (\<lambda>j. scaledPair ar md (ms ! j)) [i - w..<i]))"
      using windowLoop_result [OF le "1.prems", of ar "i - w" "[]"] by simp
    from monthAtIndex_key [OF True "1.prems", of ar] obtain b where
      b: "monthAtIndex md ms i = Inr b"
        "[jsDiv ar (cost b) (jsLit ar 1000), jsDiv ar (revenue b) (jsLit ar 1000)] = scaledPair ar md (ms ! i)"
      by blast
    from "1.IH" [OF True win b(1) "1.prems"] win b True show ?thesis
      by (subst samplesLoop.simps) (simp add: upt_conv_Cons)
  next
    case False
    then show ?thesis
      by (subst samplesLoop.simps) simp
  qed
qed

lemma buildAndTrainModel_result:
  "buildAndTrainModel ar backend md cats =
     (if length md < 5 then Inr None
      else (case fit backend 6 (trainingInputs ar md (sort (map fst md)) 3)
                   (trainingTargets ar md (sort (map fst md)) 3) of
              Inl e \<Rightarrow> Inl e
            | Inr model \<Rightarrow> Inr (Some model)))"
proof -
  define ms where "ms = sort (map fst md)"
  have keys: "set ms \<subseteq> fst ` set md" and len: "length ms = length md"
    by (simp_all add: ms_def)
  have loop: "samplesLoop ar md ms w w [] [] = Inr (trainingInputs ar md ms w, trainingTargets ar md ms w)" for w
    using samplesLoop_result [OF keys, of ar w w "[]" "[]"]
    by (simp add: trainingInputs_def trainingTargets_def)
  have n: "length (trainingInputs ar md ms w) = length md - w" for w
    by (simp add: trainingInputs_def len)
  consider "length md < 3" | "length md = 3" | "length md = 4" | "5 \<le> length md"
    by linarith
  then show ?thesis
  proof cases
    case 1
    then show ?thesis
      unfolding buildAndTrainModel_def Let_def ms_def [symmetric]
      by (simp add: len)
  next
    case 2
    then show ?thesis
      unfolding buildAndTrainModel_def Let_def ms_def [symmetric]
      by (simp add: len loop n)
  next
    case 3
    then show ?thesis
      unfolding buildAndTrainModel_def Let_def ms_def [symmetric]
      by (simp add: len loop n)
  next
    case 4
    then have w: "min 3 (length md - 1) = 3" and many: "\<not> length md - 3 < 2"
      by simp_all
    from 4 many show ?thesis
      unfolding buildAndTrainModel_def Let_def ms_def [symmetric]
      by (simp add: len w loop n)
  qed
qed

text \<open>
  Claim C5. With \<open>n\<close> months and window size \<open>min 3 (n - 1)\<close>, the windowing yields
  \<open>n - min 3 (n - 1)\<close> examples. \<^verbatim>\<open>buildAndTrainModel\<close> returns \<^verbatim>\<open>null\<close> (and raises nothing)
  when \<open>n < 3\<close>, and also when \<open>3 \<le> n\<close> and there are fewer than two examples; in every
  other case its result is the result of training on the examples, with input size twice
  the window size.
\<close>

theorem buildAndTrainModel_null:
  "length (trainingInputs ar md (sort (map fst md)) (min 3 (length md - 1))) =
      length md - min 3 (length md - 1)
   \<and> (length md < 3 \<longrightarrow> buildAndTrainModel ar backend md cats = Inr None)
   \<and> (3 \<le> length md
        \<and> length (trainingInputs ar md (sort (map fst md)) (min 3 (length md - 1))) < 2 \<longrightarrow>
          buildAndTrainModel ar backend md cats = Inr None)
   \<and> (3 \<le> length md
        \<and> 2 \<le> length (trainingInputs ar md (sort (map fst md)) (min 3 (length md - 1))) \<longrightarrow>
          buildAndTrainModel ar backend md cats =
            (case fit backend (min 3 (length md - 1) * 2)
                    (trainingInputs ar md (sort (map fst md)) (min 3 (length md - 1)))
                    (trainingTargets ar md (sort (map fst md)) (min 3 (length md - 1))) of
               Inl e \<Rightarrow> Inl e
             | Inr model \<Rightarrow> Inr (Some model)))"
proof -
  have n: "length (trainingInputs ar md (sort (map fst md)) w) = length md - w" for w
    by (simp add: trainingInputs_def)
  have w: "5 \<le> length md \<Longrightarrow> min 3 (length md - 1) = 3"
    by simp
  show ?thesis
    by (auto simp add: n w buildAndTrainModel_result)
qed

text \<open>
  Four months give window size 3 and one example: \<^verbatim>\<open>null\<close>, also with a backend whose
  training would throw. Five months give two examples, and the result is the backend's:
  a model, or the exception of the training.
\<close>

theorem buildAndTrainModel_null_witness:
  "length stableHistory = 4
   \<and> length (trainingInputs realArith stableHistory (sort (map fst stableHistory))
               (min 3 (length stableHistory - 1))) = 1
   \<and> buildAndTrainModel realArith failingBackend stableHistory [] = Inr None
   \<and> length fallingHistory = 2
   \<and> buildAndTrainModel realArith failingBackend fallingHistory [] = Inr None
   \<and> length risingHistory = 5
   \<and> length (trainingInputs realArith risingHistory (sort (map fst risingHistory))
               (min 3 (length risingHistory - 1))) = 2
   \<and> buildAndTrainModel realArith (constantBackend 0 0) risingHistory [] = Inr (Some 0)
   \<and> buildAndTrainModel realArith failingBackend risingHistory [] = Inl (BackendError ''fit'')"
proof -
  have l: "length stableHistory = 4" "length fallingHistory = 2" "length risingHistory = 5"
    by (simp_all add: stableHistory_def fallingHistory_def risingHistory_def)
  show ?thesis
    using buildAndTrainModel_null [where ar = realArith and md = stableHistory
        and backend = failingBackend and cats = "[]"]
      buildAndTrainModel_null [where ar = realArith and md = fallingHistory
        and backend = failingBackend and cats = "[]"]
      buildAndTrainModel_null [where ar = realArith and md = risingHistory
        and backend = "constantBackend 0 0" and cats = "[]"]
      buildAndTrainModel_null [where ar = realArith and md = risingHistory
        and backend = failingBackend and cats = "[]"]
    by (simp add: l constantBackend_def failingBackend_def)
qed

section \<open>The orchestrator\<close>

lemma getProp_own: "c \<notin> set inheritedNames \<Longrightarrow>
  getProp obj c = (case map_of obj c of None \<Rightarrow> Absent | Some v \<Rightarrow> Own v)"
  by (simp add: getProp_def)

lemma monthAt_categoryCost:
  "m \<in> fst ` set md \<Longrightarrow>
   (case monthAt md m of Inl e \<Rightarrow> Inl e | Inr b \<Rightarrow> Inr (categoryCost ar b c)) =
     Inr (categoryCostAt ar md c m)"
  using monthAt_key [of m md] by (auto simp add: categoryCostAt_def)

lemma monthAt_categoryRevenue:
  "m \<in> fst ` set md \<Longrightarrow>
   (case monthAt md m of Inl e \<Rightarrow> Inl e | Inr b \<Rightarrow> Inr (categoryRevenue ar b c)) =
     Inr (categoryRevenueAt ar md c m)"
  using monthAt_key [of m md] by (auto simp add: categoryRevenueAt_def)

lemma categoryCostAt_own:
  "c \<notin> set inheritedNames \<Longrightarrow> categoryCostAt ar md c m = subCost ar md m c"
  by (simp add: categoryCostAt_def subCost_def subBucket_def categoryCost_def getProp_own
      split: option.splits)

lemma getCategoryTrend_read:
  assumes "set ms \<subseteq> fst ` set md"
  shows "getCategoryTrend ar md ms c =
           Inr (categoryLabel (trendRule ar (meanOrZero ar) (jsLit ar 1.15) (jsLit ar 0.85)
                  (map (categoryCostAt ar md c) ms)))"
proof (cases "length ms < 2")
  case True
  then show ?thesis
    by (simp add: getCategoryTrend_def trendRule_def categoryLabel_def)
next
  case False
  define xs where "xs = map (categoryCostAt ar md c) ms"
  define w where "w = drop (length xs - 3) xs"
  define h where "h = (length w + 1) div 2"
  have xs_len: "\<not> length xs < 2"
    using False by (simp add: xs_def)
  have vs: "mapThrowing (\<lambda>m. case monthAt md m of Inl e \<Rightarrow> Inl e | Inr b \<Rightarrow> Inr (categoryCost ar b c)) ms
              = Inr xs"
    unfolding xs_def using assms by (intro mapThrowing_Inr monthAt_categoryCost) auto
  have w: "sliceFrom xs (- 3) = w"
    by (simp add: sliceFrom_neg w_def)
  have len: "\<not> length w < 2"
    using xs_len by (simp add: w_def)
  have first: "slice w 0 \<lceil>real (length w) / 2\<rceil> = take h w"
    by (simp add: slice_prefix ceiling_half h_def)
  have second: "sliceFrom w \<lceil>real (length w) / 2\<rceil> = drop h w"
    by (simp add: sliceFrom_nonneg ceiling_half h_def)
  have mz: "orElse ar (mean ar ys) (jsZero ar) = meanOrZero ar ys" for ys
    by (simp add: meanOrZero_def)
  have lhs: "getCategoryTrend ar md ms c =
      (if jsGt ar (meanOrZero ar (drop h w)) (jsMul ar (meanOrZero ar (take h w)) (jsLit ar 1.15))
       then Inr ''up''
       else if jsLt ar (meanOrZero ar (drop h w)) (jsMul ar (meanOrZero ar (take h w)) (jsLit ar 0.85))
       then Inr ''down'' else Inr ''stable'')"
    unfolding getCategoryTrend_def Let_def
    by (simp only: False if_False vs sum.case w len first second mean_reduceSum mz)
  have rhs: "trendRule ar (meanOrZero ar) (jsLit ar 1.15) (jsLit ar 0.85) xs =
      (if jsGt ar (meanOrZero ar (drop h w)) (jsMul ar (meanOrZero ar (take h w)) (jsLit ar 1.15))
       then Rising
       else if jsLt ar (meanOrZero ar (drop h w)) (jsMul ar (meanOrZero ar (take h w)) (jsLit ar 0.85))
       then Falling else Steady)"
    unfolding trendRule_def Let_def
    by (simp only: xs_len w_def [symmetric] h_def [symmetric] if_False)
  show ?thesis
    unfolding xs_def [symmetric]
    by (simp only: lhs rhs categoryLabel_def if_distrib [of "case_direction _ _ _"]
        if_distrib [of Inr] direction.case)
qed

lemma getCategoryTrend_rule:
  assumes "set ms \<subseteq> fst ` set md" and "c \<notin> set inheritedNames"
  shows "getCategoryTrend ar md ms c =
           Inr (categoryLabel (trendRule ar (meanOrZero ar) (jsLit ar 1.15) (jsLit ar 0.85)
                  (map (\<lambda>m. subCost ar md m c) ms)))"
proof -
  have "map (categoryCostAt ar md c) ms = map (\<lambda>m. subCost ar md m c) ms"
    using assms(2) by (simp add: categoryCostAt_own)
  with getCategoryTrend_read [OF assms(1), of ar c] show ?thesis
    by simp
qed

lemma categoryPredictionsLoop_result:
  assumes "set (months stats) \<subseteq> fst ` set md"
    and "\<forall>c\<in>set cs. map_of (categoryTotals stats) c \<noteq> None"
  shows "\<exists>cp' crp'. categoryPredictionsLoop ar md stats cs cp crp = Inr (cp', crp')"
  using assms(2)
proof (induction cs arbitrary: cp crp)
  case Nil
  show ?case by simp
next
  case (Cons cat cs)
  have cv: "mapThrowing (\<lambda>m. case monthAt md m of Inl e \<Rightarrow> Inl e | Inr b \<Rightarrow> Inr (categoryCost ar b cat))
              (months stats) = Inr (map (categoryCostAt ar md cat) (months stats))"
    using assms(1) by (intro mapThrowing_Inr monthAt_categoryCost) auto
  have rv: "mapThrowing (\<lambda>m. case monthAt md m of Inl e \<Rightarrow> Inl e | Inr b \<Rightarrow> Inr (categoryRevenue ar b cat))
              (months stats) = Inr (map (categoryRevenueAt ar md cat) (months stats))"
    using assms(1) by (intro mapThrowing_Inr monthAt_categoryRevenue) auto
  from Cons.prems obtain t where t: "map_of (categoryTotals stats) cat = Some t"
    by auto
  from Cons.prems have rest: "\<forall>c\<in>set cs. map_of (categoryTotals stats) c \<noteq> None"
    by simp
  show ?case
    using Cons.IH [OF rest] by (simp add: cv rv t Let_def)
qed

lemma categoryBreakdownLoop_result:
  assumes "set (months stats) \<subseteq> fst ` set md"
    and "\<forall>c\<in>set cs. map_of (categoryTotals stats) c \<noteq> None"
  shows "\<exists>cb'. categoryBreakdownLoop ar md stats cs cb = Inr cb'
    \<and> (\<forall>c. c \<notin> set cs \<longrightarrow> map_of cb' c = map_of cb c)
    \<and> (\<forall>c\<in>set cs. \<exists>e. map_of cb' c = Some e
          \<and> getCategoryTrend ar md (months stats) c = Inr (predictedTrend e))"
  using assms(2)
proof (induction cs arbitrary: cb)
  case Nil
  show ?case by simp
next
  case (Cons cat cs)
  from Cons.prems obtain t where t: "map_of (categoryTotals stats) cat = Some t"
    by auto
  from getCategoryTrend_read [OF assms(1), of ar cat] obtain l where
    l: "getCategoryTrend ar md (months stats) cat = Inr l"
    by blast
  define entry where
    "entry = \<lparr>currentAverage =
                orElse ar (jsDiv ar (cost t) (jsNat ar (countOr (count t) 1)))
                  (jsDiv ar (revenue t) (jsNat ar (countOr (count t) 1))),
              predictedTrend = l,
              recommendation =
                getRecommendation ar cat l (jsDiv ar (cost t) (jsNat ar (countOr (count t) 1)))
                  (jsDiv ar (revenue t) (jsNat ar (countOr (count t) 1)))\<rparr>"
  have p: "predictedTrend entry = l"
    by (simp add: entry_def)
  have step: "categoryBreakdownLoop ar md stats (cat # cs) cb =
                categoryBreakdownLoop ar md stats cs (AList.update cat entry cb)"
    by (simp add: t l entry_def Let_def)
  from Cons.prems have "\<forall>c\<in>set cs. map_of (categoryTotals stats) c \<noteq> None"
    by simp
  from Cons.IH [OF this, of "AList.update cat entry cb"] obtain cb' where
    r: "categoryBreakdownLoop ar md stats cs (AList.update cat entry cb) = Inr cb'"
    and o: "\<forall>c. c \<notin> set cs \<longrightarrow> map_of cb' c = map_of (AList.update cat entry cb) c"
    and c: "\<forall>c\<in>set cs. \<exists>e. map_of cb' c = Some e
              \<and> getCategoryTrend ar md (months stats) c = Inr (predictedTrend e)"
    by blast
  have "\<forall>c. c \<notin> set (cat # cs) \<longrightarrow> map_of cb' c = map_of cb c"
    using o by (simp add: update_conv')
  moreover have "\<forall>c\<in>set (cat # cs). \<exists>e. map_of cb' c = Some e
              \<and> getCategoryTrend ar md (months stats) c = Inr (predictedTrend e)"
  proof
    fix c assume "c \<in> set (cat # cs)"
    show "\<exists>e. map_of cb' c = Some e \<and> getCategoryTrend ar md (months stats) c = Inr (predictedTrend e)"
    proof (cases "c \<in> set cs")
      case True
      with c show ?thesis by blast
    next
      case False
      with \<open>c \<in> set (cat # cs)\<close> have "c = cat" by simp
      with False o have "map_of cb' c = Some entry"
        by (simp add: update_conv')
      with \<open>c = cat\<close> l p show ?thesis by simp
    qed
  qed
  ultimately show ?case
    using step r by simp
qed

lemma statisticalTotals_result:
  assumes "set (months stats) \<subseteq> fst ` set md"
  shows "statisticalTotals ar md stats =
           Inr (predictWithSmoothing ar (map (monthCost ar md) (months stats)) 3 (jsLit ar 0.3)
                  (avgMonthlyCost stats),
                predictWithSmoothing ar (map (monthRevenue ar md) (months stats)) 3 (jsLit ar 0.3)
                  (avgMonthlyRevenue stats))"
proof -
  have cv: "mapThrowing (\<lambda>m. case monthAt md m of Inl e \<Rightarrow> Inl e | Inr b \<Rightarrow> Inr (cost b))
              (months stats) = Inr (map (monthCost ar md) (months stats))"
    using assms by (intro mapThrowing_Inr monthAt_cost) auto
  have rv: "mapThrowing (\<lambda>m. case monthAt md m of Inl e \<Rightarrow> Inl e | Inr b \<Rightarrow> Inr (revenue b))
              (months stats) = Inr (map (monthRevenue ar md) (months stats))"
    using assms by (intro mapThrowing_Inr monthAt_revenue) auto
  show ?thesis
    by (simp add: statisticalTotals_def cv rv)
qed

lemma analyzeFinances_report:
  fixes backend :: "('m, 'n) tf" and txs :: "'n transaction list"
  assumes md: "md = fst (extractFeatures ar txs)"
    and cats: "cats = snd (extractFeatures ar txs)"
    and ms: "ms = sort (map fst md)"
    and ml: "ml = tryMLPredictions ar backend md cats ms"
    and tcp: "tcp = zeroGuard ar (averageOver ar (reduceSum ar (monthlyCosts ar md)) (length md))
                      (chosenCosts ar ml md)"
    and trp: "trp = zeroGuard ar (averageOver ar (reduceSum ar (monthlyRevenues ar md)) (length md))
                      (chosenRevenues ar ml md)"
    and ne: "md \<noteq> []"
  shows "\<exists>ct cp crp cb.
     analyzeFinances ar backend (Some txs) =
       Inr \<lparr>summary =
              \<lparr>topSpendingCategories = topOf ar ct,
               averageMonthlySpending = averageOver ar (reduceSum ar (monthlyCosts ar md)) (length md),
               averageMonthlyRevenue = averageOver ar (reduceSum ar (monthlyRevenues ar md)) (length md),
               spendingTrend =
                 overallLabel (trendRule ar (mean ar) (jsLit ar 1.1) (jsLit ar 0.9) (monthlyCosts ar md)),
               totalHistoricalCost = reduceSum ar (monthlyCosts ar md),
               totalHistoricalRevenue = reduceSum ar (monthlyRevenues ar md)\<rparr>,
            predictions =
              \<lparr>categoryPredictions = cp,
               categoryRevenuePredictions =
                 (if length (map fst (ownEntries crp)) > 0 then Some crp else None),
               totalCostPredictions = tcp,
               totalRevenuePredictions = trp,
               netBalancePredictions = map (\<lambda>i. jsSub ar (trp ! i) (tcp ! i)) [0..<length trp]\<rparr>,
            categoryBreakdown = cb,
            metadata =
              \<lparr>transactionCount = length txs,
               monthsAnalyzed = max 1 (length md),
               modelType = (if ml \<noteq> None then ''neural-network'' else ''statistical'')\<rparr>\<rparr>
     \<and> (\<forall>c. c \<notin> set cats \<longrightarrow> map_of cb c = None)
     \<and> (\<forall>c\<in>set cats. \<exists>e. map_of cb c = Some e \<and> getCategoryTrend ar md ms c = Inr (predictedTrend e))
     \<and> (\<exists>stats. calculateStatistics ar md cats = Inr stats
           \<and> categoryBreakdownLoop ar md stats cats [] = Inr cb)"
proof -
  have txs_ne: "length txs \<noteq> 0"
    using ne by (auto simp add: md extractFeatures_Nil)
  have md_ne: "length (map fst md) \<noteq> 0"
    using ne by simp
  from calculateStatistics_result [of ar md cats] obtain ct where
    st: "calculateStatistics ar md cats =
          Inr \<lparr>avgMonthlyCost = jsDiv ar (reduceSum ar (monthlyCosts ar md)) (jsNat ar (max 1 (length md))),
               avgMonthlyRevenue =
                 jsDiv ar (reduceSum ar (monthlyRevenues ar md)) (jsNat ar (max 1 (length md))),
               totalCost = reduceSum ar (monthlyCosts ar md),
               totalRevenue = reduceSum ar (monthlyRevenues ar md),
               trend = overallLabel (trendRule ar (mean ar) (jsLit ar 1.1) (jsLit ar 0.9) (monthlyCosts ar md)),
               topCategories = topOf ar ct,
               categoryTotals = ct,
               months = ms,
               numMonths = max 1 (length md)\<rparr>"
    and ctd: "\<forall>c. (map_of ct c \<noteq> None) = (c \<in> set cats)"
    unfolding ms by blast
  define S where
    "S = \<lparr>avgMonthlyCost = jsDiv ar (reduceSum ar (monthlyCosts ar md)) (jsNat ar (max 1 (length md))),
               avgMonthlyRevenue =
                 jsDiv ar (reduceSum ar (monthlyRevenues ar md)) (jsNat ar (max 1 (length md))),
               totalCost = reduceSum ar (monthlyCosts ar md),
               totalRevenue = reduceSum ar (monthlyRevenues ar md),
               trend = overallLabel (trendRule ar (mean ar) (jsLit ar 1.1) (jsLit ar 0.9) (monthlyCosts ar md)),
               topCategories = topOf ar ct,
               categoryTotals = ct,
               months = ms,
               numMonths = max 1 (length md)\<rparr>"
  have st': "calculateStatistics ar md cats = Inr S"
    by (simp only: st S_def)
  have mS: "months S = ms" and cS: "categoryTotals S = ct"
    by (simp_all add: S_def)
  have keys: "set (months S) \<subseteq> fst ` set md"
    by (simp add: mS ms)
  have tot: "\<forall>c\<in>set cats. map_of (categoryTotals S) c \<noteq> None"
    using ctd by (simp add: cS)
  from categoryPredictionsLoop_result [OF keys tot, of ar "[]" "[]"] obtain cp crp where
    cpl: "categoryPredictionsLoop ar md S cats [] [] = Inr (cp, crp)"
    by blast
  from categoryBreakdownLoop_result [OF keys tot, of ar "[]"] obtain cb where
    cbl: "categoryBreakdownLoop ar md S cats [] = Inr cb"
    and cbo: "\<forall>c. c \<notin> set cats \<longrightarrow> map_of cb c = None"
    and cbv: "\<forall>c\<in>set cats. \<exists>e. map_of cb c = Some e
                \<and> getCategoryTrend ar md ms c = Inr (predictedTrend e)"
    unfolding mS by auto
  have stat: "statisticalTotals ar md S =
           Inr (predictWithSmoothing ar (monthlyCosts ar md) 3 (jsLit ar 0.3)
                  (averageOver ar (reduceSum ar (monthlyCosts ar md)) (length md)),
                predictWithSmoothing ar (monthlyRevenues ar md) 3 (jsLit ar 0.3)
                  (averageOver ar (reduceSum ar (monthlyRevenues ar md)) (length md)))"
    using statisticalTotals_result [OF keys, of ar]
    by (simp add: mS S_def monthlyCosts_def monthlyRevenues_def ms averageOver_def)
  have chosen: "(case ml of
              None \<Rightarrow> statisticalTotals ar md S
            | Some ps \<Rightarrow>
                if list_ex (\<lambda>p. jsGt ar (cost p) (jsZero ar) \<or> jsGt ar (revenue p) (jsZero ar)) ps
                then Inr (map cost ps, map revenue ps)
                else statisticalTotals ar md S) = Inr (chosenCosts ar ml md, chosenRevenues ar ml md)"
    by (cases ml)
       (simp_all add: stat chosenCosts_def chosenRevenues_def regressionUsed_def)
  have fields:
    "topCategories S = topOf ar ct"
    "avgMonthlyCost S = averageOver ar (reduceSum ar (monthlyCosts ar md)) (length md)"
    "avgMonthlyRevenue S = averageOver ar (reduceSum ar (monthlyRevenues ar md)) (length md)"
    "trend S = overallLabel (trendRule ar (mean ar) (jsLit ar 1.1) (jsLit ar 0.9) (monthlyCosts ar md))"
    "totalCost S = reduceSum ar (monthlyCosts ar md)"
    "totalRevenue S = reduceSum ar (monthlyRevenues ar md)"
    "numMonths S = max 1 (length md)"
    by (simp_all add: S_def averageOver_def)
  have mlS: "tryMLPredictions ar backend md cats (months S) = ml"
    by (simp add: mS ml)
  have report: "analyzeFinances ar backend (Some txs) =
       Inr \<lparr>summary =
              \<lparr>topSpendingCategories = topOf ar ct,
               averageMonthlySpending = averageOver ar (reduceSum ar (monthlyCosts ar md)) (length md),
               averageMonthlyRevenue = averageOver ar (reduceSum ar (monthlyRevenues ar md)) (length md),
               spendingTrend =
                 overallLabel (trendRule ar (mean ar) (jsLit ar 1.1) (jsLit ar 0.9) (monthlyCosts ar md)),
               totalHistoricalCost = reduceSum ar (monthlyCosts ar md),
               totalHistoricalRevenue = reduceSum ar (monthlyRevenues ar md)\<rparr>,
            predictions =
              \<lparr>categoryPredictions = cp,
               categoryRevenuePredictions =
                 (if length (map fst (ownEntries crp)) > 0 then Some crp else None),
               totalCostPredictions = tcp,
               totalRevenuePredictions = trp,
               netBalancePredictions = map (\<lambda>i. jsSub ar (trp ! i) (tcp ! i)) [0..<length trp]\<rparr>,
            categoryBreakdown = cb,
            metadata =
              \<lparr>transactionCount = length txs,
               monthsAnalyzed = max 1 (length md),
               modelType = (if ml \<noteq> None then ''neural-network'' else ''statistical'')\<rparr>\<rparr>"
    unfolding analyzeFinances_def Let_def
    apply (simp only: option.case txs_ne if_False)
    apply (simp only: md [symmetric] cats [symmetric])
    apply (simp only: md_ne if_False st' sum.case cpl prod.case chosen cbl fields mlS)
    apply (simp only: zeroGuard_def [symmetric])
    apply (simp only: tcp [symmetric] trp [symmetric])
    done
  from report cbo cbv st' cbl show ?thesis by blast
qed

section \<open>Reports\<close>

lemma no_buckets_iff:
  "(fst (extractFeatures ar txs) = []) = (\<forall>tx\<in>set txs. date tx = InvalidDate)"
proof -
  have "(fst (extractFeatures ar txs) = []) = (\<forall>k. map_of (fst (extractFeatures ar txs)) k = None)"
    by (cases "fst (extractFeatures ar txs)") (auto simp add: fun_eq_iff)
  also have "\<dots> = (\<forall>tx\<in>set txs. date tx = InvalidDate)"
    using month_present_extractFeatures [of ar txs] by blast
  finally show ?thesis .
qed

lemma analyzeFinances_no_data:
  "noData ar t \<Longrightarrow> \<exists>msg. analyzeFinances ar backend t = Inl (Error msg)"
  by (cases t) (auto simp add: noData_def analyzeFinances_def extractFeatures_Nil)

lemma analyzeFinances_data:
  assumes "\<not> noData ar t"
  shows "\<exists>report. analyzeFinances ar backend t = Inr report"
proof -
  from assms obtain txs where t: "t = Some txs" and ne: "fst (extractFeatures ar txs) \<noteq> []"
    by (cases t) (auto simp add: noData_def)
  from analyzeFinances_report [OF refl refl refl refl refl refl ne, of backend]
  show ?thesis
    unfolding t by blast
qed

text \<open>
  Claim C1. For every arithmetic, every backend and every argument, \<^verbatim>\<open>analyzeFinances\<close>
  fails exactly when there is no data: the list is \<^verbatim>\<open>null\<close> or empty or extraction yields
  no month bucket, which happens exactly when no transaction has a valid date. The
  failure is one of the two \<^verbatim>\<open>Error\<close>s the function throws itself. In every other case a
  report is returned, whatever the backend does: an exception of training or inference
  is caught.
\<close>

theorem analyzeFinances_fails_iff_no_data:
  "((\<exists>e. analyzeFinances ar backend t = Inl e) = noData ar t)
   \<and> (noData ar t \<longrightarrow> (\<exists>msg. analyzeFinances ar backend t = Inl (Error msg)))
   \<and> (\<not> noData ar t \<longrightarrow> (\<exists>report. analyzeFinances ar backend t = Inr report))
   \<and> ((fst (extractFeatures ar txs) = []) = (\<forall>tx\<in>set txs. date tx = InvalidDate))"
proof (intro conjI impI)
  show "(\<exists>e. analyzeFinances ar backend t = Inl e) = noData ar t"
  proof (cases "noData ar t")
    case True
    with analyzeFinances_no_data [of ar t backend] show ?thesis by auto
  next
    case False
    with analyzeFinances_data [of ar t backend] show ?thesis by auto
  qed
  show "\<exists>msg. analyzeFinances ar backend t = Inl (Error msg)" if "noData ar t"
    using that by (rule analyzeFinances_no_data)
  show "\<exists>report. analyzeFinances ar backend t = Inr report" if "\<not> noData ar t"
    using that by (rule analyzeFinances_data)
  show "(fst (extractFeatures ar txs) = []) = (\<forall>tx\<in>set txs. date tx = InvalidDate)"
    by (rule no_buckets_iff)
qed

lemma fiveMonths_features:
  "extractFeatures realArith fiveMonths =
     ([(''2024-01'', \<lparr>cost = 100, revenue = 0, categories = [(''Food'', \<lparr>cost = 100, revenue = 0\<rparr>)]\<rparr>),
       (''2024-02'', \<lparr>cost = 100, revenue = 0, categories = [(''Food'', \<lparr>cost = 100, revenue = 0\<rparr>)]\<rparr>),
       (''2024-03'', \<lparr>cost = 100, revenue = 0, categories = [(''Food'', \<lparr>cost = 100, revenue = 0\<rparr>)]\<rparr>),
       (''2024-04'', \<lparr>cost = 200, revenue = 0, categories = [(''Food'', \<lparr>cost = 200, revenue = 0\<rparr>)]\<rparr>),
       (''2024-05'', \<lparr>cost = 220, revenue = 0, categories = [(''Food'', \<lparr>cost = 220, revenue = 0\<rparr>)]\<rparr>)],
      [''Food''])"
  by (simp add: fiveMonths_def sampleTx_def extractFeatures_def extractStep_def
      Let_def monthKeys_2024 categoryOf_def amountOf_def getProp_simps sample_names
      Set_add_def emptyBucket_def emptyTotals_def)

lemma creeping_features:
  "extractFeatures realArith creepingTransactions =
     ([(''2024-01'', \<lparr>cost = 100, revenue = 0, categories = [(''Food'', \<lparr>cost = 100, revenue = 0\<rparr>)]\<rparr>),
       (''2024-02'', \<lparr>cost = 112, revenue = 0, categories = [(''Food'', \<lparr>cost = 112, revenue = 0\<rparr>)]\<rparr>)],
      [''Food''])"
  by (simp add: creepingTransactions_def sampleTx_def extractFeatures_def extractStep_def
      Let_def monthKeys_2024 categoryOf_def amountOf_def getProp_simps sample_names
      Set_add_def emptyBucket_def emptyTotals_def)

lemma tryMLPredictions_failing: "tryMLPredictions ar failingBackend md cats ms = None"
  by (simp add: tryMLPredictions_def buildAndTrainModel_result failingBackend_def)

lemma tryMLPredictions_few: "length md < 5 \<Longrightarrow> tryMLPredictions ar backend md cats ms = None"
  by (simp add: tryMLPredictions_def buildAndTrainModel_result)

text \<open>
  No data: \<^verbatim>\<open>null\<close>, the empty list, and a list whose only date does not parse. Data:
  five months; there the training of the failing backend is reached and throws, and the
  analysis returns a report all the same.
\<close>

theorem analyzeFinances_fails_iff_no_data_witness:
  "noData realArith None \<and> noData realArith (Some [])
   \<and> noData realArith (Some [undatedTx ''cost'' ''Travel'' 9])
   \<and> (\<exists>msg. analyzeFinances realArith failingBackend None = Inl (Error msg))
   \<and> (\<exists>msg. analyzeFinances realArith failingBackend (Some [undatedTx ''cost'' ''Travel'' 9]) =
              Inl (Error msg))
   \<and> \<not> noData realArith (Some fiveMonths)
   \<and> buildAndTrainModel realArith failingBackend (fst (extractFeatures realArith fiveMonths))
         (snd (extractFeatures realArith fiveMonths))
       = Inl (BackendError ''fit'')
   \<and> (\<exists>report. analyzeFinances realArith failingBackend (Some fiveMonths) = Inr report)"
proof -
  have n: "noData realArith None" "noData realArith (Some [])"
    "noData realArith (Some [undatedTx ''cost'' ''Travel'' 9])"
    by (simp_all add: noData_def extractFeatures_def extractStep_def undatedTx_def)
  have d: "\<not> noData realArith (Some fiveMonths)"
    by (simp add: noData_def fiveMonths_features) (simp add: fiveMonths_def)
  have t: "buildAndTrainModel realArith failingBackend (fst (extractFeatures realArith fiveMonths))
             (snd (extractFeatures realArith fiveMonths)) = Inl (BackendError ''fit'')"
    by (simp add: buildAndTrainModel_result fiveMonths_features failingBackend_def)
  from analyzeFinances_fails_iff_no_data [of realArith failingBackend None "[]"]
    analyzeFinances_fails_iff_no_data [of realArith failingBackend "Some [undatedTx ''cost'' ''Travel'' 9]" "[]"]
    analyzeFinances_fails_iff_no_data [of realArith failingBackend "Some fiveMonths" "[]"]
    n d t
  show ?thesis by blast
qed

section \<open>Total predictions in the arithmetic of the reals\<close>

lemma predictWithSmoothing_real:
  "predictWithSmoothing realArith series periods alpha fallbackAverage =
     referencePredict realArith series periods alpha fallbackAverage"
  by (rule predictWithSmoothing_refines [OF commutativeProduct_real positiveMeans_real])

lemma referencePredict_nonneg:
  assumes "v \<in> set (referencePredict realArith series periods alpha fallbackAverage)"
  shows "0 \<le> v"
proof -
  let ?pos = "filter (\<lambda>v. 0 < v) series"
  consider "?pos = []" | "?pos \<noteq> []" "length ?pos = 1" | "?pos \<noteq> []" "length ?pos \<noteq> 1"
    by blast
  then show ?thesis
  proof cases
    case 1
    with assms show ?thesis
      by (simp add: referencePredict_def split: if_splits)
  next
    case 2
    then have "hd ?pos \<in> set ?pos"
      by (intro hd_in_set)
    then have "0 < hd ?pos"
      by simp
    with 2 assms show ?thesis
      by (simp add: referencePredict_def)
  next
    case 3
    then have "\<exists>F T. referencePredict realArith series periods alpha fallbackAverage =
                 map (\<lambda>i. max 0 (F + T * real (i + 1))) [0..<periods]"
      unfolding referencePredict_def Let_def
      by (simp only: realArith_simps if_False) blast
    with assms show ?thesis
      by auto
  qed
qed

lemma predictWithSmoothing_nonneg:
  "v \<in> set (predictWithSmoothing realArith series periods alpha fallbackAverage) \<Longrightarrow> 0 \<le> v"
  by (simp only: predictWithSmoothing_real referencePredict_nonneg)

lemma length_predictWithSmoothing:
  "length (predictWithSmoothing realArith series periods alpha fallbackAverage) = periods"
  by (simp only: predictWithSmoothing_real length_referencePredict)

lemma forwardLoop_result:
  assumes "forwardLoop realArith backend model i lastWindow acc = Inr ps" and "i \<le> 3"
    and "\<forall>p\<in>set acc. 0 \<le> cost p \<and> 0 \<le> revenue p"
  shows "length ps = length acc + (3 - i) \<and> (\<forall>p\<in>set ps. 0 \<le> cost p \<and> 0 \<le> revenue p)"
  using assms
proof (induction realArith backend model i lastWindow acc rule: forwardLoop.induct)
  case (1 backend model i lastWindow acc)
  show ?case
  proof (cases "i < 3")
    case True
    from "1.prems"(1) True obtain v0 v1 where v: "predict backend model lastWindow = Inr (v0, v1)"
      by (subst (asm) forwardLoop.simps) (auto split: sum.splits)
    define pc where "pc = jsMax realArith (jsZero realArith) (jsMul realArith v0 (jsLit realArith 1000))"
    define pr where "pr = jsMax realArith (jsZero realArith) (jsMul realArith v1 (jsLit realArith 1000))"
    have next_call: "forwardLoop realArith backend model (i + 1)
            (sliceFrom lastWindow 2 @
               [jsDiv realArith pc (jsLit realArith 1000), jsDiv realArith pr (jsLit realArith 1000)])
            (acc @ [\<lparr>cost = pc, revenue = pr\<rparr>]) = Inr ps"
      using "1.prems"(1) True v
      by (subst (asm) forwardLoop.simps) (simp add: pc_def pr_def Let_def)
    have nonneg: "\<forall>p\<in>set (acc @ [\<lparr>cost = pc, revenue = pr\<rparr>]). 0 \<le> cost p \<and> 0 \<le> revenue p"
      using "1.prems"(3) by (simp add: pc_def pr_def)
    from True have le: "i + 1 \<le> 3" by simp
    from "1.hyps" [OF True v refl pc_def pr_def next_call le nonneg] True
    show ?thesis by simp
  next
    case False
    with "1.prems" show ?thesis
      by (subst (asm) forwardLoop.simps) auto
  qed
qed

lemma generateMLPredictions_result:
  assumes "generateMLPredictions realArith backend model md ms w = Inr (Some ps)"
  shows "length ps = 3 \<and> (\<forall>p\<in>set ps. 0 \<le> cost p \<and> 0 \<le> revenue p)"
proof -
  from assms obtain m lastWindow where "forwardLoop realArith backend m 0 lastWindow [] = Inr ps"
    by (auto simp add: generateMLPredictions_def split: option.splits if_splits sum.splits)
  from forwardLoop_result [OF this] show ?thesis by simp
qed

lemma tryMLPredictions_result:
  assumes "tryMLPredictions realArith backend md cats ms = Some ps"
  shows "length ps = 3 \<and> (\<forall>p\<in>set ps. 0 \<le> cost p \<and> 0 \<le> revenue p)"
proof -
  from assms obtain model where
    "generateMLPredictions realArith backend (Some model) md ms 3 = Inr (Some ps)"
    by (auto simp add: tryMLPredictions_def split: sum.splits option.splits)
  then show ?thesis by (rule generateMLPredictions_result)
qed

lemma forwardLoop_constant:
  "i \<le> 3 \<Longrightarrow>
   forwardLoop realArith (constantBackend c r) model i lastWindow acc =
     Inr (acc @ replicate (3 - i) \<lparr>cost = max 0 (c * 1000), revenue = max 0 (r * 1000)\<rparr>)"
proof (induction realArith "constantBackend c r" model i lastWindow acc rule: forwardLoop.induct)
  case (1 model i lastWindow acc)
  show ?case
  proof (cases "i < 3")
    case True
    then have le: "i + 1 \<le> 3" by simp
    have p: "predict (constantBackend c r) model lastWindow = Inr (c, r)"
      by (simp add: constantBackend_def)
    from True have rep: "replicate (3 - i) x = x # replicate (3 - (i + 1)) x" for x :: "real totals"
      by (cases "3 - i") (simp_all add: Suc_diff_Suc)
    from "1.hyps" [OF True p refl refl refl le] True show ?thesis
      by (subst forwardLoop.simps) (simp add: p Let_def rep)
  next
    case False
    with "1.prems" show ?thesis
      by (subst forwardLoop.simps) simp
  qed
qed

lemma tryMLPredictions_constant:
  assumes "5 \<le> length md"
  shows "tryMLPredictions realArith (constantBackend c r) md cats (sort (map fst md)) =
           Some (replicate 3 \<lparr>cost = max 0 (c * 1000), revenue = max 0 (r * 1000)\<rparr>)"
proof -
  define ms where "ms = sort (map fst md)"
  have keys: "set ms \<subseteq> fst ` set md" and len: "length ms = length md"
    by (simp_all add: ms_def)
  have train: "buildAndTrainModel realArith (constantBackend c r) md cats = Inr (Some 0)"
    using assms by (simp add: buildAndTrainModel_result constantBackend_def)
  have window: "windowLoop realArith md ms (length ms - 3) (length ms) [] =
                  Inr (concat (map (\<lambda>j. scaledPair realArith md (ms ! j)) [length ms - 3..<length ms]))"
    using windowLoop_result [OF le_refl keys, of realArith "length ms - 3" "[]"] by simp
  have enough: "\<not> length ms < 3"
    using assms len by simp
  have "generateMLPredictions realArith (constantBackend c r) (Some 0) md ms 3 =
          Inr (Some (replicate 3 \<lparr>cost = max 0 (c * 1000), revenue = max 0 (r * 1000)\<rparr>))"
    by (simp add: generateMLPredictions_def enough window forwardLoop_constant)
  with train show ?thesis
    by (simp add: tryMLPredictions_def ms_def)
qed

lemma zeroGuard_result:
  assumes "length xs = 3" and "\<forall>v\<in>set xs. 0 \<le> v"
  shows "length (zeroGuard realArith a xs) = 3 \<and> (\<forall>v\<in>set (zeroGuard realArith a xs). 0 \<le> v)"
  using assms by (simp add: zeroGuard_def)

lemma chosenCosts_result:
  assumes "ml = tryMLPredictions realArith backend md cats ms"
  shows "length (chosenCosts realArith ml md) = 3 \<and> (\<forall>v\<in>set (chosenCosts realArith ml md). 0 \<le> v)"
proof (cases ml)
  case None
  then show ?thesis
    by (simp add: chosenCosts_def length_predictWithSmoothing predictWithSmoothing_nonneg)
next
  case (Some ps)
  with assms tryMLPredictions_result [of backend md cats ms ps]
  have "length ps = 3" "\<forall>p\<in>set ps. 0 \<le> cost p" by simp_all
  with Some show ?thesis
    by (simp add: chosenCosts_def length_predictWithSmoothing predictWithSmoothing_nonneg)
qed

lemma chosenRevenues_result:
  assumes "ml = tryMLPredictions realArith backend md cats ms"
  shows "length (chosenRevenues realArith ml md) = 3
       \<and> (\<forall>v\<in>set (chosenRevenues realArith ml md). 0 \<le> v)"
proof (cases ml)
  case None
  then show ?thesis
    by (simp add: chosenRevenues_def length_predictWithSmoothing predictWithSmoothing_nonneg)
next
  case (Some ps)
  with assms tryMLPredictions_result [of backend md cats ms ps]
  have "length ps = 3" "\<forall>p\<in>set ps. 0 \<le> revenue p" by simp_all
  with Some show ?thesis
    by (simp add: chosenRevenues_def length_predictWithSmoothing predictWithSmoothing_nonneg)
qed

lemma analyzeFinances_Inr:
  assumes "analyzeFinances ar backend t = Inr r"
  shows "\<exists>txs. t = Some txs \<and> fst (extractFeatures ar txs) \<noteq> []"
proof (cases "noData ar t")
  case True
  with analyzeFinances_no_data [of ar t backend] assms show ?thesis by auto
next
  case False
  then show ?thesis
    by (cases t) (auto simp add: noData_def)
qed

lemma report_totals:
  assumes "analyzeFinances ar backend (Some txs) = Inr r"
  shows "totalCostPredictions (predictions r) =
           zeroGuard ar (averageOver ar (reduceSum ar (monthlyCosts ar (fst (extractFeatures ar txs))))
                        (length (fst (extractFeatures ar txs))))
             (chosenCosts ar (tryMLPredictions ar backend (fst (extractFeatures ar txs))
                             (snd (extractFeatures ar txs))
                             (sort (map fst (fst (extractFeatures ar txs)))))
                (fst (extractFeatures ar txs)))
       \<and> totalRevenuePredictions (predictions r) =
           zeroGuard ar (averageOver ar (reduceSum ar (monthlyRevenues ar (fst (extractFeatures ar txs))))
                        (length (fst (extractFeatures ar txs))))
             (chosenRevenues ar (tryMLPredictions ar backend (fst (extractFeatures ar txs))
                             (snd (extractFeatures ar txs))
                             (sort (map fst (fst (extractFeatures ar txs)))))
                (fst (extractFeatures ar txs)))
       \<and> netBalancePredictions (predictions r) =
           map (\<lambda>i. jsSub ar (totalRevenuePredictions (predictions r) ! i)
                      (totalCostPredictions (predictions r) ! i))
             [0..<length (totalRevenuePredictions (predictions r))]
       \<and> modelType (metadata r) =
           (if tryMLPredictions ar backend (fst (extractFeatures ar txs)) (snd (extractFeatures ar txs))
                 (sort (map fst (fst (extractFeatures ar txs)))) \<noteq> None
            then ''neural-network'' else ''statistical'')"
proof -
  from analyzeFinances_Inr [OF assms] have ne: "fst (extractFeatures ar txs) \<noteq> []"
    by simp
  from analyzeFinances_report [OF refl refl refl refl refl refl ne, of backend] assms
  show ?thesis
    by auto
qed

lemma fiveMonths_data: "\<not> noData realArith (Some fiveMonths)"
  by (simp add: noData_def fiveMonths_features) (simp add: fiveMonths_def)

lemma fiveMonths_series:
  "monthlyCosts realArith (fst (extractFeatures realArith fiveMonths)) = [100, 100, 100, 200, 220]"
  "monthlyRevenues realArith (fst (extractFeatures realArith fiveMonths)) = [0, 0, 0, 0, 0]"
  "length (fst (extractFeatures realArith fiveMonths)) = 5"
  by (simp_all add: fiveMonths_features monthlyCosts_def monthlyRevenues_def monthCost_def
      monthRevenue_def)

lemma fiveMonths_smoothing:
  "predictWithSmoothing realArith [100, 100, 100, 200, 220] 3 0.3 144 = [185.8, 214.6, 243.4]"
  "predictWithSmoothing realArith [0, 0, 0, 0, 0] 3 0.3 0 = [0, 0, 0]"
  by (simp_all add: predictWithSmoothing_real referencePredict_def mean_real Let_def upt_rec_numeral
      numeral_nat)

lemma fiveMonths_statistical:
  assumes "\<not> regressionUsed realArith
               (tryMLPredictions realArith backend (fst (extractFeatures realArith fiveMonths))
                 (snd (extractFeatures realArith fiveMonths))
                 (sort (map fst (fst (extractFeatures realArith fiveMonths)))))"
  shows "totalCostOf (analyzeFinances realArith backend (Some fiveMonths)) = [185.8, 214.6, 243.4]
       \<and> totalRevenueOf (analyzeFinances realArith backend (Some fiveMonths)) = [0, 0, 0]
       \<and> netBalanceOf (analyzeFinances realArith backend (Some fiveMonths)) = [- 185.8, - 214.6, - 243.4]"
proof -
  let ?md = "fst (extractFeatures realArith fiveMonths)"
  let ?ml = "tryMLPredictions realArith backend ?md (snd (extractFeatures realArith fiveMonths))
               (sort (map fst ?md))"
  from analyzeFinances_data [OF fiveMonths_data, of backend] obtain r where
    r: "analyzeFinances realArith backend (Some fiveMonths) = Inr r" by blast
  have avg: "averageOver realArith (reduceSum realArith (monthlyCosts realArith ?md)) (length ?md) = 144"
    "averageOver realArith (reduceSum realArith (monthlyRevenues realArith ?md)) (length ?md) = 0"
    by (simp_all add: fiveMonths_series averageOver_def reduceSum_real)
  have chosen: "chosenCosts realArith ?ml ?md = [185.8, 214.6, 243.4]"
    "chosenRevenues realArith ?ml ?md = [0, 0, 0]"
    using assms
    by (cases ?ml; simp add: chosenCosts_def chosenRevenues_def fiveMonths_series
        fiveMonths_smoothing averageOver_def reduceSum_real)+
  from report_totals [OF r]
  have "totalCostPredictions (predictions r) = [185.8, 214.6, 243.4]"
    and "totalRevenuePredictions (predictions r) = [0, 0, 0]"
    and nb: "netBalancePredictions (predictions r) =
           map (\<lambda>i. totalRevenuePredictions (predictions r) ! i - totalCostPredictions (predictions r) ! i)
             [0..<length (totalRevenuePredictions (predictions r))]"
    by (simp_all add: avg chosen zeroGuard_def)
  then show ?thesis
    by (simp add: r totalCostOf_def totalRevenueOf_def netBalanceOf_def upt_rec_numeral numeral_nat)
qed




section \<open>Model type\<close>

text \<open>
  Claim C6, on an input where the code departs from it. Five months of history and a
  backend whose model predicts zero: the regression output exists and is all zero, the
  total predictions are those of the smoothing forecaster, and the report still says
  \<^verbatim>\<open>neural-network\<close>.
\<close>

theorem modelType_neural_network_on_smoothing_totals:
  "tryMLPredictions realArith (constantBackend 0 0) (fst (extractFeatures realArith fiveMonths))
       (snd (extractFeatures realArith fiveMonths))
       (sort (map fst (fst (extractFeatures realArith fiveMonths))))
     = Some [\<lparr>cost = 0, revenue = 0\<rparr>, \<lparr>cost = 0, revenue = 0\<rparr>, \<lparr>cost = 0, revenue = 0\<rparr>]
   \<and> \<not> regressionUsed realArith
         (Some [\<lparr>cost = 0, revenue = 0\<rparr>, \<lparr>cost = 0, revenue = 0\<rparr>, \<lparr>cost = 0, revenue = 0\<rparr>])
   \<and> totalCostOf (analyzeFinances realArith (constantBackend 0 0) (Some fiveMonths)) =
        predictWithSmoothing realArith [100, 100, 100, 200, 220] 3 0.3 144
   \<and> totalCostOf (analyzeFinances realArith (constantBackend 0 0) (Some fiveMonths)) = [185.8, 214.6, 243.4]
   \<and> modelTypeOf (analyzeFinances realArith (constantBackend 0 0) (Some fiveMonths)) =
        Some ''neural-network''"
proof -
  let ?md = "fst (extractFeatures realArith fiveMonths)"
  let ?ml = "tryMLPredictions realArith (constantBackend 0 0) ?md (snd (extractFeatures realArith fiveMonths))
               (sort (map fst ?md))"
  have ml: "?ml = Some [\<lparr>cost = 0, revenue = 0\<rparr>, \<lparr>cost = 0, revenue = 0\<rparr>, \<lparr>cost = 0, revenue = 0\<rparr>]"
    using tryMLPredictions_constant [of ?md 0 0 "snd (extractFeatures realArith fiveMonths)"]
    by (simp add: fiveMonths_series(3) numeral_3_eq_3)
  have unused: "\<not> regressionUsed realArith
                    (Some [\<lparr>cost = 0, revenue = 0\<rparr>, \<lparr>cost = 0, revenue = 0\<rparr>, \<lparr>cost = 0, revenue = 0\<rparr>])"
    by (simp add: regressionUsed_def)
  have "\<not> regressionUsed realArith ?ml"
    by (simp add: ml regressionUsed_def)
  from fiveMonths_statistical [OF this]
  have tc: "totalCostOf (analyzeFinances realArith (constantBackend 0 0) (Some fiveMonths)) =
              [185.8, 214.6, 243.4]"
    by simp
  from analyzeFinances_data [OF fiveMonths_data, of "constantBackend 0 0"] obtain r where
    r: "analyzeFinances realArith (constantBackend 0 0) (Some fiveMonths) = Inr r" by blast
  from report_totals [OF r] have "modelType (metadata r) = ''neural-network''"
    by (simp add: ml)
  then have mt: "modelTypeOf (analyzeFinances realArith (constantBackend 0 0) (Some fiveMonths)) =
                   Some ''neural-network''"
    by (simp add: r modelTypeOf_def)
  from ml unused tc mt show ?thesis
    by (simp only: fiveMonths_smoothing simp_thms)
qed

section \<open>Category trend\<close>

lemma report_breakdown:
  assumes "analyzeFinances ar backend (Some txs) = Inr r"
  shows "(\<forall>c. c \<notin> set (snd (extractFeatures ar txs)) \<longrightarrow> map_of (categoryBreakdown r) c = None)
       \<and> (\<forall>c\<in>set (snd (extractFeatures ar txs)). \<exists>e. map_of (categoryBreakdown r) c = Some e
             \<and> getCategoryTrend ar (fst (extractFeatures ar txs))
                 (sort (map fst (fst (extractFeatures ar txs)))) c = Inr (predictedTrend e))
       \<and> (\<exists>stats. calculateStatistics ar (fst (extractFeatures ar txs)) (snd (extractFeatures ar txs)) =
                     Inr stats
             \<and> categoryBreakdownLoop ar (fst (extractFeatures ar txs)) stats
                 (snd (extractFeatures ar txs)) [] = Inr (categoryBreakdown r))"
proof -
  from analyzeFinances_Inr [OF assms] have ne: "fst (extractFeatures ar txs) \<noteq> []"
    by simp
  from analyzeFinances_report [OF refl refl refl refl refl refl ne, of backend] assms
  show ?thesis
    by auto
qed

lemma creeping_data: "\<not> noData realArith (Some creepingTransactions)"
  by (simp add: noData_def creeping_features) (simp add: creepingTransactions_def)

lemma creeping_series:
  "categoryCosts realArith (fst (extractFeatures realArith creepingTransactions)) ''Food'' = [100, 112]"
  by (simp add: creeping_features categoryCosts_def subCost_def subBucket_def)

lemma meanOrZero_real: "meanOrZero realArith xs = sum_list xs / real (length xs)"
  by (simp add: meanOrZero_def mean_real)

text \<open>
  Claim C7, as the code has it, for a category whose name is not the name of an inherited
  property. \<^verbatim>\<open>getCategoryTrend\<close> has its own factors and reads a mean that is falsy as 0:
  the categories of a report are the categories of the extraction, and the trend
  reported for a category is the trend rule on that category's monthly costs in month
  order (window of the last three values, first half of \<open>\<lceil>n / 2\<rceil>\<close>, \<^verbatim>\<open>stable\<close> under two
  months) with \<^verbatim>\<open>up\<close> when the second mean exceeds the first times 1.15 and \<^verbatim>\<open>down\<close> when
  it is below the first times 0.85, means, products and comparisons being those of the
  machine.
\<close>

theorem predictedTrend_rule:
  assumes "analyzeFinances ar backend (Some txs) = Inr r" and "c \<notin> set inheritedNames"
  shows "(map_of (categoryBreakdown r) c \<noteq> None) = (c \<in> set (snd (extractFeatures ar txs)))
       \<and> (\<forall>b. map_of (categoryBreakdown r) c = Some b \<longrightarrow>
             predictedTrend b =
               categoryLabel (trendRule ar (meanOrZero ar) (jsLit ar 1.15) (jsLit ar 0.85)
                 (categoryCosts ar (fst (extractFeatures ar txs)) c)))"
proof (cases "c \<in> set (snd (extractFeatures ar txs))")
  case True
  let ?md = "fst (extractFeatures ar txs)"
  have keys: "set (sort (map fst ?md)) \<subseteq> fst ` set ?md"
    by simp
  from report_breakdown [OF assms(1)] True obtain e where
    e: "map_of (categoryBreakdown r) c = Some e"
    and t: "getCategoryTrend ar ?md (sort (map fst ?md)) c = Inr (predictedTrend e)"
    by blast
  from getCategoryTrend_rule [OF keys assms(2), of ar] t
  have "predictedTrend e =
          categoryLabel (trendRule ar (meanOrZero ar) (jsLit ar 1.15) (jsLit ar 0.85)
            (categoryCosts ar ?md c))"
    by (simp add: categoryCosts_def)
  with e True show ?thesis
    by simp
next
  case False
  with report_breakdown [OF assms(1)] show ?thesis
    by simp
qed

text \<open>
  In the arithmetic of the reals, \<^verbatim>\<open>Food\<close> costs 100 then 112: the second mean 112 does not
  exceed 100 times 1.15, and the reported trend is \<^verbatim>\<open>stable\<close>.
\<close>

theorem predictedTrend_rule_witness:
  "\<exists>r b. analyzeFinances realArith failingBackend (Some creepingTransactions) = Inr r
     \<and> ''Food'' \<notin> set inheritedNames
     \<and> ''Food'' \<in> set (snd (extractFeatures realArith creepingTransactions))
     \<and> map_of (categoryBreakdown r) ''Food'' = Some b
     \<and> categoryCosts realArith (fst (extractFeatures realArith creepingTransactions)) ''Food'' = [100, 112]
     \<and> categoryLabel (trendRule realArith (meanOrZero realArith) 1.15 0.85 [100, 112]) = ''stable''
     \<and> predictedTrend b = ''stable''"
proof -
  from analyzeFinances_data [OF creeping_data, of failingBackend] obtain r where
    r: "analyzeFinances realArith failingBackend (Some creepingTransactions) = Inr r" by blast
  have c: "''Food'' \<in> set (snd (extractFeatures realArith creepingTransactions))"
    by (simp add: creeping_features)
  have n: "''Food'' \<notin> set inheritedNames"
    by (rule sample_names)
  have l: "categoryLabel (trendRule realArith (meanOrZero realArith) 1.15 0.85 [100, 112]) = ''stable''"
    by (simp add: trendRule_def categoryLabel_def meanOrZero_real Let_def)
  from predictedTrend_rule [OF r n] c obtain b where
    b: "map_of (categoryBreakdown r) ''Food'' = Some b"
    and t: "predictedTrend b =
              categoryLabel (trendRule realArith (meanOrZero realArith) 1.15 0.85 [100, 112])"
    by (auto simp add: creeping_series)
  from r n c b l t show ?thesis
    by (simp add: creeping_series)
qed

lemma creeping_trend:
  "predictedTrendOf (analyzeFinances realArith backend (Some creepingTransactions)) ''Food'' =
     Some ''stable''"
proof -
  let ?md = "fst (extractFeatures realArith creepingTransactions)"
  from analyzeFinances_data [OF creeping_data, of backend] obtain r where
    r: "analyzeFinances realArith backend (Some creepingTransactions) = Inr r" by blast
  have c: "''Food'' \<in> set (snd (extractFeatures realArith creepingTransactions))"
    by (simp add: creeping_features)
  have keys: "set (sort (map fst ?md)) \<subseteq> fst ` set ?md"
    by simp
  have l: "categoryLabel (trendRule realArith (meanOrZero realArith) 1.15 0.85 [100, 112]) = ''stable''"
    by (simp add: trendRule_def categoryLabel_def meanOrZero_real Let_def)
  from report_breakdown [OF r] c obtain e where
    e: "map_of (categoryBreakdown r) ''Food'' = Some e"
    and t: "getCategoryTrend realArith ?md (sort (map fst ?md)) ''Food'' = Inr (predictedTrend e)"
    by blast
  from getCategoryTrend_rule [OF keys sample_names(1), of realArith] t l
  have "predictedTrend e = ''stable''"
    using creeping_series by (simp add: categoryCosts_def)
  with e show ?thesis
    by (simp add: r predictedTrendOf_def)
qed

text \<open>
  Claim C7 as stated fails on that input: with the factors 1.1 and 0.9 of the overall
  trend, 112 exceeds 100 times 1.1 and the rule says \<^verbatim>\<open>up\<close>; the report says \<^verbatim>\<open>stable\<close>.
\<close>

theorem predictedTrend_overall_factors_counterexample:
  "categoryCosts realArith (fst (extractFeatures realArith creepingTransactions)) ''Food'' = [100, 112]
   \<and> categoryLabel (trendRule realArith (mean realArith) 1.1 0.9 [100, 112]) = ''up''
   \<and> predictedTrendOf (analyzeFinances realArith failingBackend (Some creepingTransactions)) ''Food'' =
       Some ''stable''
   \<and> predictedTrendOf (analyzeFinances realArith failingBackend (Some creepingTransactions)) ''Food'' \<noteq>
       Some (categoryLabel (trendRule realArith (mean realArith) 1.1 0.9
               (categoryCosts realArith (fst (extractFeatures realArith creepingTransactions)) ''Food'')))"
proof -
  have "categoryLabel (trendRule realArith (mean realArith) 1.1 0.9 [100, 112]) = ''up''"
    by (simp add: trendRule_def categoryLabel_def mean_real Let_def)
  then show ?thesis
    by (simp add: creeping_series creeping_trend)
qed

section \<open>Category averages\<close>

lemma inheritedNameTx_features:
  "extractFeatures ar [inheritedNameTx a] =
     ([(''2024-01'', \<lparr>cost = jsAdd ar (jsZero ar) (orElse ar a (jsZero ar)), revenue = jsZero ar,
                        categories = []\<rparr>)],
      [''constructor''])"
  by (simp add: inheritedNameTx_def extractFeatures_def extractStep_def
      Let_def monthKeys_2024 categoryOf_def amountOf_def getProp_simps sample_names
      Set_add_def emptyBucket_def emptyTotals_def)

lemma inheritedNameTx_statistics:
  "\<exists>stats. calculateStatistics ar (fst (extractFeatures ar [inheritedNameTx a]))
              (snd (extractFeatures ar [inheritedNameTx a])) = Inr stats
     \<and> months stats = [''2024-01'']
     \<and> categoryTotals stats =
         [(''constructor'', \<lparr>cost = jsAdd ar (jsZero ar) (jsNaN ar),
                              revenue = jsAdd ar (jsZero ar) (jsNaN ar), count = 1\<rparr>)]"
  by (simp add: inheritedNameTx_features calculateStatistics_def Let_def initCategoryTotals_def
      monthAt_def getProp_simps sample_names countOr_def)

text \<open>
  Claim C10 at a category that bears the name of an inherited property. The only
  transaction is a \<^verbatim>\<open>constructor\<close> cost in one month, so the claim's average is its
  amount. In the code \<^verbatim>\<open>categories['constructor']\<close> is the inherited function in every
  month: the total of the category is \<^verbatim>\<open>0 + NaN\<close>, and the current average of the report
  is computed from that total, whatever the amount.
\<close>

theorem currentAverage_of_inherited_name:
  "currentAverageOf (analyzeFinances ar backend (Some [inheritedNameTx a])) ''constructor'' =
     Some (orElse ar (jsDiv ar (jsAdd ar (jsZero ar) (jsNaN ar)) (jsNat ar 1))
             (jsDiv ar (jsAdd ar (jsZero ar) (jsNaN ar)) (jsNat ar 1)))"
proof -
  let ?txs = "[inheritedNameTx a]"
  have "\<not> noData ar (Some ?txs)"
    by (simp add: noData_def inheritedNameTx_features)
  from analyzeFinances_data [OF this, of backend] obtain r where
    r: "analyzeFinances ar backend (Some ?txs) = Inr r" by blast
  from report_breakdown [OF r] obtain stats where
    st: "calculateStatistics ar (fst (extractFeatures ar ?txs)) (snd (extractFeatures ar ?txs)) = Inr stats"
    and cb: "categoryBreakdownLoop ar (fst (extractFeatures ar ?txs)) stats
               (snd (extractFeatures ar ?txs)) [] = Inr (categoryBreakdown r)"
    by blast
  from inheritedNameTx_statistics [of ar a] st
  have ms: "months stats = [''2024-01'']"
    and ct: "categoryTotals stats =
         [(''constructor'', \<lparr>cost = jsAdd ar (jsZero ar) (jsNaN ar),
                              revenue = jsAdd ar (jsZero ar) (jsNaN ar), count = 1\<rparr>)]"
    by auto
  have trend: "getCategoryTrend ar md [''2024-01''] c = Inr ''stable''" for md c
    by (simp add: getCategoryTrend_def)
  define q where "q = jsDiv ar (jsAdd ar (jsZero ar) (jsNaN ar)) (jsNat ar 1)"
  have "categoryBreakdownLoop ar (fst (extractFeatures ar ?txs)) stats (snd (extractFeatures ar ?txs)) [] =
          Inr [(''constructor'',
                \<lparr>currentAverage = orElse ar q q, predictedTrend = ''stable'',
                 recommendation = getRecommendation ar ''constructor'' ''stable'' q q\<rparr>)]"
    by (simp add: inheritedNameTx_features ms ct countOr_def Let_def trend q_def)
  with cb have "categoryBreakdown r =
          [(''constructor'',
            \<lparr>currentAverage = orElse ar q q, predictedTrend = ''stable'',
             recommendation = getRecommendation ar ''constructor'' ''stable'' q q\<rparr>)]"
    by simp
  then have "map_option currentAverage (map_of (categoryBreakdown r) ''constructor'') =
     Some (orElse ar (jsDiv ar (jsAdd ar (jsZero ar) (jsNaN ar)) (jsNat ar 1))
             (jsDiv ar (jsAdd ar (jsZero ar) (jsNaN ar)) (jsNat ar 1)))"
    by (simp add: q_def)
  then show ?thesis
    by (simp add: r currentAverageOf_def)
qed

end
